theory Spec2Isabelle
  imports Main
begin

section \<open>JavaScript values and objects\<close>

text \<open>
  The repository holds two iterations of one promise implementation.  The file
  \<^verbatim>\<open>src/promise.js\<close> is the earlier one (functions named after the
  ECMAScript abstract operations: \<^verbatim>\<open>FulfillPromise\<close>, \<^verbatim>\<open>CreateResolvingFunctions\<close>, ...);
  \<^verbatim>\<open>src/unnamed/part_000\<close> is the later one (\<^verbatim>\<open>fulfillPromise\<close>,
  \<^verbatim>\<open>createResolvingFunctions\<close>, ...).  Both are embedded below over one state type.
  Definitions of the later file keep the source's names; those of the earlier file keep
  the source's capitalised names, with the suffix \<open>_v1\<close> where the two files use the
  same name.

  Function values are closures of the library (\<open>ResolveFn c\<close> and \<open>RejectFn c\<close> are the
  two closures of a resolving pair, \<open>c\<close> being the address of the closure environment
  they read and write; \<open>ThenFn\<close> is \<^verbatim>\<open>Promise.prototype.then\<close>) or functions of
  the caller (\<open>UserFn i\<close>), whose behaviour is a parameter of the model.  \<open>Class i\<close> is
  a class of the caller: its \<^verbatim>\<open>typeof\<close> is \<^verbatim>\<open>'function'\<close>, but it can only be invoked
  with \<^verbatim>\<open>new\<close>.
\<close>

datatype fn = ResolveFn nat | RejectFn nat | ThenFn | UserFn nat

datatype val =
    Undefined
  | Null
  | Boolean bool
  | Number int
  | Str string
  | Object nat
  | Function fn
  | PromiseObject nat
  | TypeError string
  | Class nat

datatype completion = Return val | Throw val

datatype jstype = T_undefined | T_object | T_boolean | T_number | T_string | T_function

fun typeof :: "val \<Rightarrow> jstype" where
  "typeof Undefined = T_undefined"
| "typeof Null = T_object"
| "typeof (Boolean b) = T_boolean"
| "typeof (Number n) = T_number"
| "typeof (Str x) = T_string"
| "typeof (Object a) = T_object"
| "typeof (Function f) = T_function"
| "typeof (PromiseObject p) = T_object"
| "typeof (TypeError m) = T_object"
| "typeof (Class c) = T_function"

definition isObject :: "val \<Rightarrow> bool" where
  "isObject obj = (typeof obj = T_object)"

definition isFunction :: "val \<Rightarrow> bool" where
  "isFunction func = (typeof func = T_function)"

fun isPromise :: "val \<Rightarrow> bool" where
  "isPromise (PromiseObject p) = True"
| "isPromise v = False"

text \<open>
  \<^verbatim>\<open>isCallable\<close> is the package \<^verbatim>\<open>is-callable\<close>, which the repository
  imports: it holds of the functions that can be called without \<^verbatim>\<open>new\<close>, so not of
  classes.
\<close>

fun isCallable :: "val \<Rightarrow> bool" where
  "isCallable (Function f) = True"
| "isCallable v = False"

text \<open>The truth value JavaScript gives a value in \<^verbatim>\<open>if (x)\<close> and \<^verbatim>\<open>!x\<close>.\<close>

fun truthy :: "val \<Rightarrow> bool" where
  "truthy Undefined = False"
| "truthy Null = False"
| "truthy (Boolean b) = b"
| "truthy (Number n) = (n \<noteq> 0)"
| "truthy (Str x) = (x \<noteq> [])"
| "truthy v = True"

text \<open>The \<open>i\<close>-th argument of a call; a missing argument is \<^verbatim>\<open>undefined\<close>.\<close>

definition arg :: "val list \<Rightarrow> nat \<Rightarrow> val" where
  "arg args i = (if i < length args then args ! i else Undefined)"

text \<open>
  A data property with its \<^verbatim>\<open>writable\<close> attribute.  Both files are CommonJS
  modules without a strict-mode directive, so an assignment to a property that is not
  writable is ignored silently: that is \<open>Put\<close>.
\<close>

record 'a property =
  pvalue :: 'a
  writable :: bool

definition Put :: "'a \<Rightarrow> 'a property \<Rightarrow> 'a property" where
  "Put v pr = (if writable pr then pr\<lparr>pvalue := v\<rparr> else pr)"

datatype PROMISE_STATE = PENDING | FULFILLED | REJECTED

datatype REACTION_TYPE = FULFILL | REJECT

record capability =
  cap_promise :: val
  cap_resolve :: val
  cap_reject :: val

record reaction =
  capability :: capability
  rtype :: REACTION_TYPE
  handler :: val

text \<open>
  A promise object.  The first four fields are the properties the constructor declares
  through \<^verbatim>\<open>Object.create\<close>; the value of a reaction list is \<open>None\<close> when the property
  holds \<^verbatim>\<open>undefined\<close>.  \<open>PromiseResult\<close> is created by the first assignment to it
  (\<open>None\<close>: the object has no such property yet).  \<open>PromiseIsHandled_own\<close> is the property
  \<^verbatim>\<open>PromiseIsHandled\<close> that \<^verbatim>\<open>performPromiseThen\<close> of the later file assigns, which is
  not the declared \<^verbatim>\<open>[[PromiseIsHandled]]\<close>.
\<close>

record promise_object =
  PromiseState :: "PROMISE_STATE property"
  PromiseFulfillReactions :: "reaction list option property"
  PromiseRejectReactions :: "reaction list option property"
  PromiseIsHandled :: "bool property"
  PromiseResult :: "val option"
  PromiseIsHandled_own :: "val option"

text \<open>The variables a resolving closure captures.\<close>

record closure_env =
  env_promise :: nat
  alreadySettled :: bool

text \<open>The callbacks handed to \<^verbatim>\<open>setImmediate\<close>.\<close>

datatype job =
    ReactionJob reaction val
  | ResolveThenableJob nat val val

record st =
  heap :: "nat \<Rightarrow> promise_object"
  nextPromise :: nat
  envs :: "nat \<Rightarrow> closure_env"
  nextEnv :: nat
  caps :: "nat \<Rightarrow> capability"
  nextCap :: nat
  queue :: "job list"
  console :: "string list"

text \<open>
  The caller's code and the parts of the language that are not modelled:
  \<^item> \<open>callUser\<close>: what a function of the caller does when it is called with a receiver
    and arguments; it may change the state in any way;
  \<^item> \<open>user_then\<close>: what reading the property \<^verbatim>\<open>then\<close> of one of the caller's objects,
    functions or classes gives (a value, or the error its accessor throws); the read is
    taken to have no effect on the state and to give the same answer each time;
  \<^item> \<open>user_toString\<close>: what converting an object or a function to a string does.  The
    conversion calls the \<^verbatim>\<open>toString\<close> or \<^verbatim>\<open>valueOf\<close> the value has or inherits, which
    the caller can define or replace: it gives a string (\<open>Inr\<close>) or throws a value
    (\<open>Inl\<close>), and may change the state in any way;
  \<^item> \<open>number_text\<close>: the text the language gives a number.
\<close>

record host =
  callUser :: "nat \<Rightarrow> val \<Rightarrow> val list \<Rightarrow> st \<Rightarrow> completion \<times> st"
  user_then :: "val \<Rightarrow> completion"
  user_toString :: "val \<Rightarrow> st \<Rightarrow> (val + string) \<times> st"
  number_text :: "int \<Rightarrow> string"

text \<open>
  The string a template literal makes of a value: fixed by the language for
  \<^verbatim>\<open>undefined\<close>, \<^verbatim>\<open>null\<close>, booleans, numbers and strings, and the work of the
  value's own conversion methods for everything else.
\<close>

fun ToString :: "host \<Rightarrow> val \<Rightarrow> st \<Rightarrow> (val + string) \<times> st" where
  "ToString H Undefined s = (Inr ''undefined'', s)"
| "ToString H Null s = (Inr ''null'', s)"
| "ToString H (Boolean b) s = (Inr (if b then ''true'' else ''false''), s)"
| "ToString H (Number n) s = (Inr (number_text H n), s)"
| "ToString H (Str x) s = (Inr x, s)"
| "ToString H v s = user_toString H v s"

text \<open>
  Reading \<^verbatim>\<open>x.then\<close>.  On \<^verbatim>\<open>null\<close> and \<^verbatim>\<open>undefined\<close> the language throws a
  TypeError; a promise inherits \<^verbatim>\<open>Promise.prototype.then\<close>; the library's closures,
  its error objects and the primitives have no such property.
\<close>

fun Get_then :: "host \<Rightarrow> val \<Rightarrow> completion" where
  "Get_then H Undefined = Throw (TypeError ''Cannot read properties of undefined'')"
| "Get_then H Null = Throw (TypeError ''Cannot read properties of null'')"
| "Get_then H (PromiseObject p) = Return (Function ThenFn)"
| "Get_then H (Object a) = user_then H (Object a)"
| "Get_then H (Function (UserFn i)) = user_then H (Function (UserFn i))"
| "Get_then H (Class c) = user_then H (Class c)"
| "Get_then H v = Return Undefined"

definition setImmediate :: "job \<Rightarrow> st \<Rightarrow> st" where
  "setImmediate j s = s\<lparr>queue := queue s @ [j]\<rparr>"

definition console_log :: "string \<Rightarrow> st \<Rightarrow> st" where
  "console_log line s = s\<lparr>console := console s @ [line]\<rparr>"

section \<open>The later file: \<^verbatim>\<open>src/unnamed/part_000\<close>\<close>

definition triggerPromiseReactions :: "reaction list option \<Rightarrow> val \<Rightarrow> st \<Rightarrow> completion \<times> st" where
  "triggerPromiseReactions reactions argument s =
     (case reactions of
        None \<Rightarrow> (Throw (TypeError ''Cannot read properties of undefined''), s)
      | Some rs \<Rightarrow>
          (Return Undefined, fold (\<lambda>reaction. setImmediate (ReactionJob reaction argument)) rs s))"

definition fulfillPromise :: "nat \<Rightarrow> val \<Rightarrow> st \<Rightarrow> completion \<times> st" where
  "fulfillPromise promise v s =
     (if pvalue (PromiseState (heap s promise)) \<noteq> PENDING then (Return Undefined, s)
      else
        let reactions = pvalue (PromiseFulfillReactions (heap s promise));
            o1 = (heap s promise)\<lparr>PromiseResult := Some v\<rparr>;
            o2 = o1\<lparr>PromiseFulfillReactions := Put None (PromiseFulfillReactions o1)\<rparr>;
            o3 = o2\<lparr>PromiseRejectReactions := Put None (PromiseRejectReactions o2)\<rparr>;
            o4 = o3\<lparr>PromiseState := Put FULFILLED (PromiseState o3)\<rparr>
        in triggerPromiseReactions reactions v (s\<lparr>heap := (heap s)(promise := o4)\<rparr>))"

definition rejectPromise :: "nat \<Rightarrow> val \<Rightarrow> st \<Rightarrow> completion \<times> st" where
  "rejectPromise promise reason s =
     (if pvalue (PromiseState (heap s promise)) \<noteq> PENDING then (Return Undefined, s)
      else
        let reactions = pvalue (PromiseRejectReactions (heap s promise));
            o1 = (heap s promise)\<lparr>PromiseResult := Some reason\<rparr>;
            o2 = o1\<lparr>PromiseFulfillReactions := Put None (PromiseFulfillReactions o1)\<rparr>;
            o3 = o2\<lparr>PromiseRejectReactions := Put None (PromiseRejectReactions o2)\<rparr>;
            o4 = o3\<lparr>PromiseState := Put REJECTED (PromiseState o3)\<rparr>
        in triggerPromiseReactions reactions reason (s\<lparr>heap := (heap s)(promise := o4)\<rparr>))"

text \<open>
  \<^verbatim>\<open>createResolvingFunctions\<close> allocates one closure environment, holding
  \<^verbatim>\<open>promise\<close> and \<^verbatim>\<open>alreadySettled\<close>, and returns its address: the two closures are
  \<open>Function (ResolveFn c)\<close> and \<open>Function (RejectFn c)\<close>.
\<close>

definition createResolvingFunctions :: "nat \<Rightarrow> st \<Rightarrow> nat \<times> st" where
  "createResolvingFunctions promise s =
     (nextEnv s,
      s\<lparr>envs := (envs s)(nextEnv s := \<lparr>env_promise = promise, alreadySettled = False\<rparr>),
        nextEnv := Suc (nextEnv s)\<rparr>)"

definition createResolvingFunctions_resolve :: "host \<Rightarrow> nat \<Rightarrow> val \<Rightarrow> st \<Rightarrow> completion \<times> st" where
  "createResolvingFunctions_resolve H c resolution s =
     (let promise = env_promise (envs s c) in
      if alreadySettled (envs s c) then (Return Undefined, s)
      else
        let s1 = s\<lparr>envs := (envs s)(c := (envs s c)\<lparr>alreadySettled := True\<rparr>)\<rparr> in
        if resolution = PromiseObject promise then
          rejectPromise promise (TypeError ''resolution === promise'') s1
        else if resolution = Null then fulfillPromise promise resolution s1
        else if \<not> isObject resolution \<and> \<not> isFunction resolution then
          fulfillPromise promise resolution s1
        else
          (case Get_then H resolution of
             Throw error \<Rightarrow> rejectPromise promise error s1
           | Return thenAction \<Rightarrow>
               if \<not> isCallable thenAction then
                 (case fulfillPromise promise resolution s1 of
                    (Throw error, s2) \<Rightarrow> rejectPromise promise error s2
                  | (Return r, s2) \<Rightarrow> (Return r, s2))
               else
                 (Return Undefined,
                  setImmediate (ResolveThenableJob promise resolution thenAction) s1)))"

definition createResolvingFunctions_reject :: "nat \<Rightarrow> val \<Rightarrow> st \<Rightarrow> completion \<times> st" where
  "createResolvingFunctions_reject c reason s =
     (let promise = env_promise (envs s c) in
      if alreadySettled (envs s c) then (Return Undefined, s)
      else
        let s1 = s\<lparr>envs := (envs s)(c := (envs s c)\<lparr>alreadySettled := True\<rparr>)\<rparr>
        in rejectPromise promise reason s1)"

text \<open>
  The constructor after its two checks, with the call of the executor as a function of
  the two closures and the state.
\<close>

definition Promise_construct ::
  "(val \<Rightarrow> val \<Rightarrow> st \<Rightarrow> completion \<times> st) \<Rightarrow> st \<Rightarrow> completion \<times> st" where
  "Promise_construct executor s =
     (let promise = nextPromise s;
          s1 = s\<lparr>heap := (heap s)(promise :=
                  \<lparr>PromiseState = \<lparr>pvalue = PENDING, writable = True\<rparr>,
                   PromiseFulfillReactions = \<lparr>pvalue = Some [], writable = False\<rparr>,
                   PromiseRejectReactions = \<lparr>pvalue = Some [], writable = False\<rparr>,
                   PromiseIsHandled = \<lparr>pvalue = False, writable = True\<rparr>,
                   PromiseResult = None,
                   PromiseIsHandled_own = None\<rparr>),
                nextPromise := Suc (nextPromise s)\<rparr>;
          (c, s2) = createResolvingFunctions promise s1
      in case executor (Function (ResolveFn c)) (Function (RejectFn c)) s2 of
           (Return r, s3) \<Rightarrow> (Return (PromiseObject promise), s3)
         | (Throw err, s3) \<Rightarrow>
             (case createResolvingFunctions_reject c err s3 of
                (Return r, s4) \<Rightarrow> (Return (PromiseObject promise), s4)
              | (Throw e, s4) \<Rightarrow> (Throw e, s4)))"

text \<open>
  The executor closure of \<^verbatim>\<open>newPromiseCapability\<close>; \<open>a\<close> is the address of the
  capability object it captures.
\<close>

definition newPromiseCapability_executor :: "nat \<Rightarrow> val \<Rightarrow> val \<Rightarrow> st \<Rightarrow> completion \<times> st" where
  "newPromiseCapability_executor a resolve reject s =
     (if truthy (cap_resolve (caps s a)) then (Throw (TypeError ''promiseCapability.Resolve''), s)
      else if truthy (cap_reject (caps s a)) then (Throw (TypeError ''promiseCapability.Reject''), s)
      else (Return Undefined,
            s\<lparr>caps := (caps s)(a := (caps s a)\<lparr>cap_resolve := resolve, cap_reject := reject\<rparr>)\<rparr>))"

definition newPromiseCapability :: "st \<Rightarrow> (val + capability) \<times> st" where
  "newPromiseCapability s =
     (let a = nextCap s;
          s1 = s\<lparr>caps := (caps s)(a := \<lparr>cap_promise = Undefined, cap_resolve = Undefined,
                                        cap_reject = Undefined\<rparr>),
                nextCap := Suc (nextCap s)\<rparr>
      in case Promise_construct (newPromiseCapability_executor a) s1 of
           (Throw e, s2) \<Rightarrow> (Inl e, s2)
         | (Return promise, s2) \<Rightarrow>
             let s3 = s2\<lparr>caps := (caps s2)(a := (caps s2 a)\<lparr>cap_promise := promise\<rparr>)\<rparr> in
             if \<not> isCallable (cap_resolve (caps s3 a)) then
               (Inl (TypeError ''!isCallable(promiseCapability.Resolve)''), s3)
             else if \<not> isCallable (cap_reject (caps s3 a)) then
               (Inl (TypeError ''!isCallable(promiseCapability.Reject)''), s3)
             else (Inr (caps s3 a), s3))"

definition performPromiseThen ::
  "nat \<Rightarrow> val \<Rightarrow> val \<Rightarrow> capability \<Rightarrow> st \<Rightarrow> completion \<times> st" where
  "performPromiseThen promise onFulfilled0 onRejected0 resultCapability s =
     (let onFulfilled = (if \<not> isCallable onFulfilled0 then Undefined else onFulfilled0);
          onRejected = (if \<not> isCallable onRejected0 then Undefined else onRejected0);
          fulfillReaction = \<lparr>capability = resultCapability, rtype = FULFILL, handler = onFulfilled\<rparr>;
          rejectReaction = \<lparr>capability = resultCapability, rtype = REJECT, handler = onRejected\<rparr>;
          ob = heap s promise;
          handled = (\<lambda>t. t\<lparr>heap := (heap t)(promise :=
                        (heap t promise)\<lparr>PromiseIsHandled_own := Some (Boolean True)\<rparr>)\<rparr>)
      in
      if pvalue (PromiseState ob) = PENDING then
        (case (pvalue (PromiseFulfillReactions ob), pvalue (PromiseRejectReactions ob)) of
           (Some frs, Some rrs) \<Rightarrow>
             (Return (cap_promise resultCapability),
              handled (s\<lparr>heap := (heap s)(promise := ob
                 \<lparr>PromiseFulfillReactions := (PromiseFulfillReactions ob)\<lparr>pvalue := Some (frs @ [fulfillReaction])\<rparr>,
                  PromiseRejectReactions := (PromiseRejectReactions ob)\<lparr>pvalue := Some (rrs @ [rejectReaction])\<rparr>\<rparr>)\<rparr>))
         | (Some frs, None) \<Rightarrow>
             (Throw (TypeError ''Cannot read properties of undefined''),
              s\<lparr>heap := (heap s)(promise := ob
                 \<lparr>PromiseFulfillReactions := (PromiseFulfillReactions ob)\<lparr>pvalue := Some (frs @ [fulfillReaction])\<rparr>\<rparr>)\<rparr>)
         | (None, x) \<Rightarrow> (Throw (TypeError ''Cannot read properties of undefined''), s))
      else if pvalue (PromiseState ob) = FULFILLED then
        (let v = (case PromiseResult ob of None \<Rightarrow> Undefined | Some r \<Rightarrow> r)
         in (Return (cap_promise resultCapability),
             handled (setImmediate (ReactionJob fulfillReaction v) s)))
      else if pvalue (PromiseState ob) = REJECTED then
        (let reason = (case PromiseResult ob of None \<Rightarrow> Undefined | Some r \<Rightarrow> r)
         in (Return (cap_promise resultCapability),
             handled (setImmediate (ReactionJob rejectReaction reason) s)))
      else (Return (cap_promise resultCapability), handled s))"

definition Promise_then :: "val \<Rightarrow> val \<Rightarrow> val \<Rightarrow> st \<Rightarrow> completion \<times> st" where
  "Promise_then this onFulfilled onRejected s =
     (case this of
        PromiseObject promise \<Rightarrow>
          (case newPromiseCapability s of
             (Inl e, s1) \<Rightarrow> (Throw e, s1)
           | (Inr resultCapability, s1) \<Rightarrow>
               performPromiseThen promise onFulfilled onRejected resultCapability s1)
      | _ \<Rightarrow> (Throw (TypeError ''!IsPromise(promise)''), s))"

text \<open>Calling a value as a function, with a receiver and arguments.\<close>

fun Call :: "host \<Rightarrow> val \<Rightarrow> val \<Rightarrow> val list \<Rightarrow> st \<Rightarrow> completion \<times> st" where
  "Call H (Function (ResolveFn c)) this args s = createResolvingFunctions_resolve H c (arg args 0) s"
| "Call H (Function (RejectFn c)) this args s = createResolvingFunctions_reject c (arg args 0) s"
| "Call H (Function ThenFn) this args s = Promise_then this (arg args 0) (arg args 1) s"
| "Call H (Function (UserFn i)) this args s = callUser H i this args s"
| "Call H (Class c) this args s =
     (Throw (TypeError ''Class constructor cannot be invoked without new''), s)"
| "Call H f this args s = (Throw (TypeError ''is not a function''), s)"

text \<open>
  The constructor; \<open>new_target\<close> tells whether it is invoked with \<^verbatim>\<open>new\<close>.  The
  message of the second error is a template literal with the executor in it, so the
  executor is converted to a string before the TypeError is made.
\<close>

definition Promise :: "host \<Rightarrow> bool \<Rightarrow> val \<Rightarrow> st \<Rightarrow> completion \<times> st" where
  "Promise H new_target executor s =
     (if \<not> new_target then (Throw (TypeError ''undefined is not a promise''), s)
      else if \<not> isCallable executor then
        (case ToString H executor s of
           (Inl e, s1) \<Rightarrow> (Throw e, s1)
         | (Inr text, s1) \<Rightarrow>
             (Throw (TypeError (''Promise resolver '' @ text @ '' is not a function'')), s1))
      else Promise_construct (\<lambda>resolve reject. Call H executor Undefined [resolve, reject]) s)"

definition promiseReactionJob :: "host \<Rightarrow> reaction \<Rightarrow> val \<Rightarrow> st \<Rightarrow> completion \<times> st" where
  "promiseReactionJob H r argument s =
     (if \<not> truthy (handler r) then
        (case rtype r of
           FULFILL \<Rightarrow> Call H (cap_resolve (capability r)) Undefined [argument] s
         | REJECT \<Rightarrow> Call H (cap_reject (capability r)) Undefined [argument] s)
      else
        (case Call H (handler r) Undefined [argument] s of
           (Throw error, s1) \<Rightarrow> Call H (cap_reject (capability r)) Undefined [error] s1
         | (Return handlerResult, s1) \<Rightarrow>
             (case Call H (cap_resolve (capability r)) Undefined [handlerResult] s1 of
                (Throw error, s2) \<Rightarrow> Call H (cap_reject (capability r)) Undefined [error] s2
              | (Return x, s2) \<Rightarrow> (Return Undefined, s2))))"

definition promiseResolveThenableJob :: "host \<Rightarrow> nat \<Rightarrow> val \<Rightarrow> val \<Rightarrow> st \<Rightarrow> completion \<times> st" where
  "promiseResolveThenableJob H promise thenable then' s =
     (let (c, s1) = createResolvingFunctions promise s in
      case Call H then' thenable [Function (ResolveFn c), Function (RejectFn c)] s1 of
        (Throw error, s2) \<Rightarrow> createResolvingFunctions_reject c error s2
      | (Return r, s2) \<Rightarrow> (Return r, s2))"

definition Promise_resolve :: "host \<Rightarrow> val \<Rightarrow> st \<Rightarrow> completion \<times> st" where
  "Promise_resolve H x s =
     (case newPromiseCapability s of
        (Inl e, s1) \<Rightarrow> (Throw e, s1)
      | (Inr promiseCapability, s1) \<Rightarrow>
          (case Call H (cap_resolve promiseCapability) Undefined [x] s1 of
             (Throw e, s2) \<Rightarrow> (Throw e, s2)
           | (Return r, s2) \<Rightarrow> (Return (cap_promise promiseCapability), s2)))"

definition Promise_reject :: "host \<Rightarrow> val \<Rightarrow> st \<Rightarrow> completion \<times> st" where
  "Promise_reject H r s =
     (case newPromiseCapability s of
        (Inl e, s1) \<Rightarrow> (Throw e, s1)
      | (Inr promiseCapability, s1) \<Rightarrow>
          (case Call H (cap_reject promiseCapability) Undefined [r] s1 of
             (Throw e, s2) \<Rightarrow> (Throw e, s2)
           | (Return x, s2) \<Rightarrow> (Return (cap_promise promiseCapability), s2)))"

definition Promise_deferred :: "st \<Rightarrow> (val + capability) \<times> st" where
  "Promise_deferred = newPromiseCapability"

text \<open>
  The host's queue: \<^verbatim>\<open>setImmediate\<close> callbacks run one at a time, oldest first.
  \<open>runJob\<close> is the body of a callback.  \<open>runLoop H n s\<close> runs the loop for at most \<open>n\<close>
  callbacks and returns the callbacks it has run, in the order it ran them, with the
  state it reached; an error that a callback throws is not caught by anything, and the
  process ends there.
\<close>

fun runJob :: "host \<Rightarrow> job \<Rightarrow> st \<Rightarrow> completion \<times> st" where
  "runJob H (ReactionJob r argument) s = promiseReactionJob H r argument s"
| "runJob H (ResolveThenableJob promise resolution thenAction) s =
     promiseResolveThenableJob H promise resolution thenAction s"

fun runLoop :: "host \<Rightarrow> nat \<Rightarrow> st \<Rightarrow> job list \<times> st" where
  "runLoop H 0 s = ([], s)"
| "runLoop H (Suc n) s =
     (case queue s of
        [] \<Rightarrow> ([], s)
      | j # js \<Rightarrow>
          (case runJob H j (s\<lparr>queue := js\<rparr>) of
             (Throw e, s1) \<Rightarrow> ([j], s1)
           | (Return r, s1) \<Rightarrow> (case runLoop H n s1 of (executed, s2) \<Rightarrow> (j # executed, s2))))"

section \<open>The earlier file: \<^verbatim>\<open>src/promise.js\<close>\<close>

definition HostPromiseRejectionTracker :: "nat \<Rightarrow> string \<Rightarrow> st \<Rightarrow> st" where
  "HostPromiseRejectionTracker promise operation s =
     console_log (''HostPromiseRejectionTracker is invoked: '' @ operation) s"

definition TriggerPromiseReactions :: "reaction list option \<Rightarrow> val \<Rightarrow> st \<Rightarrow> completion \<times> st" where
  "TriggerPromiseReactions reactions argument s =
     (case reactions of
        None \<Rightarrow> (Throw (TypeError ''Cannot read properties of undefined''), s)
      | Some rs \<Rightarrow>
          (Return Undefined, fold (\<lambda>reaction. setImmediate (ReactionJob reaction argument)) rs s))"

definition FulfillPromise :: "nat \<Rightarrow> val \<Rightarrow> st \<Rightarrow> completion \<times> st" where
  "FulfillPromise promise v s =
     (let reactions = pvalue (PromiseFulfillReactions (heap s promise));
          o1 = (heap s promise)\<lparr>PromiseResult := Some v\<rparr>;
          o2 = o1\<lparr>PromiseFulfillReactions := Put None (PromiseFulfillReactions o1)\<rparr>;
          o3 = o2\<lparr>PromiseRejectReactions := Put None (PromiseRejectReactions o2)\<rparr>;
          o4 = o3\<lparr>PromiseState := Put FULFILLED (PromiseState o3)\<rparr>
      in TriggerPromiseReactions reactions v (s\<lparr>heap := (heap s)(promise := o4)\<rparr>))"

definition RejectPromise :: "nat \<Rightarrow> val \<Rightarrow> st \<Rightarrow> completion \<times> st" where
  "RejectPromise promise reason s =
     (let reactions = pvalue (PromiseRejectReactions (heap s promise));
          o1 = (heap s promise)\<lparr>PromiseResult := Some reason\<rparr>;
          o2 = o1\<lparr>PromiseFulfillReactions := Put None (PromiseFulfillReactions o1)\<rparr>;
          o3 = o2\<lparr>PromiseRejectReactions := Put None (PromiseRejectReactions o2)\<rparr>;
          o4 = o3\<lparr>PromiseState := Put REJECTED (PromiseState o3)\<rparr>;
          s1 = s\<lparr>heap := (heap s)(promise := o4)\<rparr>;
          s2 = (if \<not> pvalue (PromiseIsHandled o4)
                then HostPromiseRejectionTracker promise ''reject'' s1 else s1)
      in TriggerPromiseReactions reactions reason s2)"

text \<open>
  \<^verbatim>\<open>getPromiseResolveFunctions\<close> and \<^verbatim>\<open>getPromiseRejectFunctions\<close> each make a new
  closure environment with the variables \<^verbatim>\<open>Promise\<close> and \<^verbatim>\<open>AlreadyResolved\<close>
  (fields \<open>env_promise\<close> and \<open>alreadySettled\<close>), and return the two setters and the
  closure \<^verbatim>\<open>Function\<close> over it; the address of the environment stands for that triple.
  The variables are unset until the setters run; \<^verbatim>\<open>CreateResolvingFunctions\<close> calls
  both setters before it hands the closure out.
\<close>

definition getPromiseResolveFunctions :: "st \<Rightarrow> nat \<times> st" where
  "getPromiseResolveFunctions s = (nextEnv s, s\<lparr>nextEnv := Suc (nextEnv s)\<rparr>)"

definition getPromiseRejectFunctions :: "st \<Rightarrow> nat \<times> st" where
  "getPromiseRejectFunctions s = (nextEnv s, s\<lparr>nextEnv := Suc (nextEnv s)\<rparr>)"

definition setPromise :: "nat \<Rightarrow> nat \<Rightarrow> st \<Rightarrow> st" where
  "setPromise c v s = s\<lparr>envs := (envs s)(c := (envs s c)\<lparr>env_promise := v\<rparr>)\<rparr>"

definition setAlreadyResolved :: "nat \<Rightarrow> bool \<Rightarrow> st \<Rightarrow> st" where
  "setAlreadyResolved c v s = s\<lparr>envs := (envs s)(c := (envs s c)\<lparr>alreadySettled := v\<rparr>)\<rparr>"

text \<open>
  The result is the pair of environments of \<^verbatim>\<open>Resolve\<close> and of \<^verbatim>\<open>Reject\<close>: the
  closures are \<open>Function (ResolveFn c1)\<close> and \<open>Function (RejectFn c2)\<close>.  The constant
  \<^verbatim>\<open>alreadyResolved\<close> is a boolean, so each setter receives a copy of \<^verbatim>\<open>false\<close>.
\<close>

definition CreateResolvingFunctions :: "nat \<Rightarrow> st \<Rightarrow> (nat \<times> nat) \<times> st" where
  "CreateResolvingFunctions promise s =
     (let alreadyResolved = False;
          (resolve, s1) = getPromiseResolveFunctions s;
          s2 = setPromise resolve promise s1;
          s3 = setAlreadyResolved resolve alreadyResolved s2;
          (reject, s4) = getPromiseRejectFunctions s3;
          s5 = setPromise reject promise s4;
          s6 = setAlreadyResolved reject alreadyResolved s5
      in ((resolve, reject), s6))"

definition getPromiseResolveFunctions_Function ::
  "host \<Rightarrow> nat \<Rightarrow> val \<Rightarrow> st \<Rightarrow> completion \<times> st" where
  "getPromiseResolveFunctions_Function H c resolution s =
     (let promise = env_promise (envs s c);
          alreadyResolved = alreadySettled (envs s c)
      in
      if alreadyResolved then (Return Undefined, s)
      else
        let s1 = s\<lparr>envs := (envs s)(c := (envs s c)\<lparr>alreadySettled := True\<rparr>)\<rparr> in
        if resolution = PromiseObject promise then
          RejectPromise promise (TypeError ''resolution === promise'') s1
        else if \<not> isObject resolution then FulfillPromise promise resolution s1
        else
          (case Get_then H resolution of
             Throw error \<Rightarrow> (Throw error, s1)
           | Return thenAction \<Rightarrow>
               if \<not> isCallable thenAction then FulfillPromise promise resolution s1
               else
                 (Return Undefined,
                  setImmediate (ResolveThenableJob promise resolution thenAction) s1)))"

definition getPromiseRejectFunctions_Function :: "nat \<Rightarrow> val \<Rightarrow> st \<Rightarrow> completion \<times> st" where
  "getPromiseRejectFunctions_Function c reason s =
     (let promise = env_promise (envs s c);
          alreadyResolved = alreadySettled (envs s c)
      in
      if alreadyResolved then (Return Undefined, s)
      else
        let s1 = s\<lparr>envs := (envs s)(c := (envs s c)\<lparr>alreadySettled := True\<rparr>)\<rparr>
        in RejectPromise promise reason s1)"

definition Promise_construct_v1 ::
  "(val \<Rightarrow> val \<Rightarrow> st \<Rightarrow> completion \<times> st) \<Rightarrow> st \<Rightarrow> completion \<times> st" where
  "Promise_construct_v1 executor s =
     (let promise = nextPromise s;
          s1 = s\<lparr>heap := (heap s)(promise :=
                  \<lparr>PromiseState = \<lparr>pvalue = PENDING, writable = True\<rparr>,
                   PromiseFulfillReactions = \<lparr>pvalue = Some [], writable = False\<rparr>,
                   PromiseRejectReactions = \<lparr>pvalue = Some [], writable = False\<rparr>,
                   PromiseIsHandled = \<lparr>pvalue = False, writable = True\<rparr>,
                   PromiseResult = None,
                   PromiseIsHandled_own = None\<rparr>),
                nextPromise := Suc (nextPromise s)\<rparr>;
          ((c1, c2), s2) = CreateResolvingFunctions promise s1
      in case executor (Function (ResolveFn c1)) (Function (RejectFn c2)) s2 of
           (Return r, s3) \<Rightarrow> (Return (PromiseObject promise), s3)
         | (Throw err, s3) \<Rightarrow>
             (case getPromiseRejectFunctions_Function c2 err s3 of
                (Return r, s4) \<Rightarrow> (Return (PromiseObject promise), s4)
              | (Throw e, s4) \<Rightarrow> (Throw e, s4)))"

definition NewPromiseCapability_executor :: "nat \<Rightarrow> val \<Rightarrow> val \<Rightarrow> st \<Rightarrow> completion \<times> st" where
  "NewPromiseCapability_executor a resolve reject s =
     (if truthy (cap_resolve (caps s a)) then (Throw (TypeError ''promiseCapability.Resolve''), s)
      else if truthy (cap_reject (caps s a)) then (Throw (TypeError ''promiseCapability.Reject''), s)
      else (Return Undefined,
            s\<lparr>caps := (caps s)(a := (caps s a)\<lparr>cap_resolve := resolve, cap_reject := reject\<rparr>)\<rparr>))"

definition NewPromiseCapability :: "st \<Rightarrow> (val + capability) \<times> st" where
  "NewPromiseCapability s =
     (let a = nextCap s;
          s1 = s\<lparr>caps := (caps s)(a := \<lparr>cap_promise = Undefined, cap_resolve = Undefined,
                                        cap_reject = Undefined\<rparr>),
                nextCap := Suc (nextCap s)\<rparr>
      in case Promise_construct_v1 (NewPromiseCapability_executor a) s1 of
           (Throw e, s2) \<Rightarrow> (Inl e, s2)
         | (Return promise, s2) \<Rightarrow>
             let s3 = s2\<lparr>caps := (caps s2)(a := (caps s2 a)\<lparr>cap_promise := promise\<rparr>)\<rparr> in
             if \<not> isCallable (cap_resolve (caps s3 a)) then
               (Inl (TypeError ''!isCallable(promiseCapability.Resolve)''), s3)
             else if \<not> isCallable (cap_reject (caps s3 a)) then
               (Inl (TypeError ''!isCallable(promiseCapability.Reject)''), s3)
             else (Inr (caps s3 a), s3))"

fun state_name :: "PROMISE_STATE \<Rightarrow> string" where
  "state_name PENDING = ''pending''"
| "state_name FULFILLED = ''fulfilled''"
| "state_name REJECTED = ''rejected''"

definition PerformPromiseThen ::
  "nat \<Rightarrow> val \<Rightarrow> val \<Rightarrow> capability \<Rightarrow> st \<Rightarrow> completion \<times> st" where
  "PerformPromiseThen promise onFulfilled0 onRejected0 resultCapability s0 =
     (let onFulfilled = (if \<not> isCallable onFulfilled0 then Undefined else onFulfilled0);
          onRejected = (if \<not> isCallable onRejected0 then Undefined else onRejected0);
          fulfillReaction = \<lparr>capability = resultCapability, rtype = FULFILL, handler = onFulfilled\<rparr>;
          rejectReaction = \<lparr>capability = resultCapability, rtype = REJECT, handler = onRejected\<rparr>;
          s = console_log (''state: '' @ state_name (pvalue (PromiseState (heap s0 promise)))) s0;
          ob = heap s promise;
          handled = (\<lambda>t. t\<lparr>heap := (heap t)(promise :=
                        (heap t promise)\<lparr>PromiseIsHandled := Put True (PromiseIsHandled (heap t promise))\<rparr>)\<rparr>)
      in
      if pvalue (PromiseState ob) = PENDING then
        (case (pvalue (PromiseFulfillReactions ob), pvalue (PromiseRejectReactions ob)) of
           (Some frs, Some rrs) \<Rightarrow>
             (Return (cap_promise resultCapability),
              handled (s\<lparr>heap := (heap s)(promise := ob
                 \<lparr>PromiseFulfillReactions := (PromiseFulfillReactions ob)\<lparr>pvalue := Some (frs @ [fulfillReaction])\<rparr>,
                  PromiseRejectReactions := (PromiseRejectReactions ob)\<lparr>pvalue := Some (rrs @ [rejectReaction])\<rparr>\<rparr>)\<rparr>))
         | (Some frs, None) \<Rightarrow>
             (Throw (TypeError ''Cannot read properties of undefined''),
              s\<lparr>heap := (heap s)(promise := ob
                 \<lparr>PromiseFulfillReactions := (PromiseFulfillReactions ob)\<lparr>pvalue := Some (frs @ [fulfillReaction])\<rparr>\<rparr>)\<rparr>)
         | (None, x) \<Rightarrow> (Throw (TypeError ''Cannot read properties of undefined''), s))
      else if pvalue (PromiseState ob) = FULFILLED then
        (let v = (case PromiseResult ob of None \<Rightarrow> Undefined | Some r \<Rightarrow> r)
         in (Return (cap_promise resultCapability),
             handled (setImmediate (ReactionJob fulfillReaction v) s)))
      else if pvalue (PromiseState ob) = REJECTED then
        (let reason = (case PromiseResult ob of None \<Rightarrow> Undefined | Some r \<Rightarrow> r);
             s1 = (if \<not> pvalue (PromiseIsHandled ob)
                   then HostPromiseRejectionTracker promise ''handle'' s else s)
         in (Return (cap_promise resultCapability),
             handled (setImmediate (ReactionJob rejectReaction reason) s1)))
      else (Return (cap_promise resultCapability), handled s))"

definition Promise_then_v1 :: "val \<Rightarrow> val \<Rightarrow> val \<Rightarrow> st \<Rightarrow> completion \<times> st" where
  "Promise_then_v1 this onFulfilled onRejected s =
     (case this of
        PromiseObject promise \<Rightarrow>
          (case NewPromiseCapability s of
             (Inl e, s1) \<Rightarrow> (Throw e, s1)
           | (Inr resultCapability, s1) \<Rightarrow>
               PerformPromiseThen promise onFulfilled onRejected resultCapability s1)
      | _ \<Rightarrow> (Throw (TypeError ''!IsPromise(promise)''), s))"

fun Call_v1 :: "host \<Rightarrow> val \<Rightarrow> val \<Rightarrow> val list \<Rightarrow> st \<Rightarrow> completion \<times> st" where
  "Call_v1 H (Function (ResolveFn c)) this args s =
     getPromiseResolveFunctions_Function H c (arg args 0) s"
| "Call_v1 H (Function (RejectFn c)) this args s =
     getPromiseRejectFunctions_Function c (arg args 0) s"
| "Call_v1 H (Function ThenFn) this args s = Promise_then_v1 this (arg args 0) (arg args 1) s"
| "Call_v1 H (Function (UserFn i)) this args s = callUser H i this args s"
| "Call_v1 H (Class c) this args s =
     (Throw (TypeError ''Class constructor cannot be invoked without new''), s)"
| "Call_v1 H f this args s = (Throw (TypeError ''is not a function''), s)"

definition Promise_v1 :: "host \<Rightarrow> bool \<Rightarrow> val \<Rightarrow> st \<Rightarrow> completion \<times> st" where
  "Promise_v1 H new_target executor s =
     (if \<not> new_target then (Throw (TypeError ''undefined is not a promise''), s)
      else if \<not> isCallable executor then
        (case ToString H executor s of
           (Inl e, s1) \<Rightarrow> (Throw e, s1)
         | (Inr text, s1) \<Rightarrow>
             (Throw (TypeError (''Promise resolver '' @ text @ '' is not a function'')), s1))
      else Promise_construct_v1 (\<lambda>resolve reject. Call_v1 H executor Undefined [resolve, reject]) s)"

definition PromiseReactionJob :: "host \<Rightarrow> reaction \<Rightarrow> val \<Rightarrow> st \<Rightarrow> completion \<times> st" where
  "PromiseReactionJob H r argument s =
     (if handler r = Undefined then
        (case rtype r of
           FULFILL \<Rightarrow> Call_v1 H (cap_resolve (capability r)) Undefined [argument] s
         | REJECT \<Rightarrow> Call_v1 H (cap_reject (capability r)) Undefined [argument] s)
      else
        (case Call_v1 H (handler r) Undefined [argument] s of
           (Throw error, s1) \<Rightarrow> Call_v1 H (cap_reject (capability r)) Undefined [error] s1
         | (Return handlerResult, s1) \<Rightarrow>
             (case Call_v1 H (cap_resolve (capability r)) Undefined [handlerResult] s1 of
                (Throw error, s2) \<Rightarrow> Call_v1 H (cap_reject (capability r)) Undefined [error] s2
              | (Return x, s2) \<Rightarrow> (Return Undefined, s2))))"

definition PromiseResolveThenableJob :: "host \<Rightarrow> nat \<Rightarrow> val \<Rightarrow> val \<Rightarrow> st \<Rightarrow> completion \<times> st" where
  "PromiseResolveThenableJob H promise resolution thenAction s =
     (let ((c1, c2), s1) = CreateResolvingFunctions promise s in
      case Call_v1 H thenAction resolution [Function (ResolveFn c1), Function (RejectFn c2)] s1 of
        (Throw error, s2) \<Rightarrow> getPromiseRejectFunctions_Function c2 error s2
      | (Return r, s2) \<Rightarrow> (Return r, s2))"

definition Promise_resolve_v1 :: "host \<Rightarrow> val \<Rightarrow> st \<Rightarrow> completion \<times> st" where
  "Promise_resolve_v1 H x s =
     (case NewPromiseCapability s of
        (Inl e, s1) \<Rightarrow> (Throw e, s1)
      | (Inr promiseCapability, s1) \<Rightarrow>
          (case Call_v1 H (cap_resolve promiseCapability) Undefined [x] s1 of
             (Throw e, s2) \<Rightarrow> (Throw e, s2)
           | (Return r, s2) \<Rightarrow> (Return (cap_promise promiseCapability), s2)))"

definition Promise_reject_v1 :: "host \<Rightarrow> val \<Rightarrow> st \<Rightarrow> completion \<times> st" where
  "Promise_reject_v1 H r s =
     (case NewPromiseCapability s of
        (Inl e, s1) \<Rightarrow> (Throw e, s1)
      | (Inr promiseCapability, s1) \<Rightarrow>
          (case Call_v1 H (cap_reject promiseCapability) Undefined [r] s1 of
             (Throw e, s2) \<Rightarrow> (Throw e, s2)
           | (Return x, s2) \<Rightarrow> (Return (cap_promise promiseCapability), s2)))"

text \<open>
  \<^verbatim>\<open>Promise.deferred\<close> returns the three parts of the capability in a new object, under
  the names \<^verbatim>\<open>resolve\<close>, \<^verbatim>\<open>reject\<close> and \<^verbatim>\<open>promise\<close>.
\<close>

definition Promise_deferred_v1 :: "st \<Rightarrow> (val + capability) \<times> st" where
  "Promise_deferred_v1 s =
     (case NewPromiseCapability s of
        (Inl e, s1) \<Rightarrow> (Inl e, s1)
      | (Inr c, s1) \<Rightarrow>
          (Inr \<lparr>cap_promise = cap_promise c, cap_resolve = cap_resolve c, cap_reject = cap_reject c\<rparr>,
           s1))"

fun runJob_v1 :: "host \<Rightarrow> job \<Rightarrow> st \<Rightarrow> completion \<times> st" where
  "runJob_v1 H (ReactionJob r argument) s = PromiseReactionJob H r argument s"
| "runJob_v1 H (ResolveThenableJob promise resolution thenAction) s =
     PromiseResolveThenableJob H promise resolution thenAction s"

fun runLoop_v1 :: "host \<Rightarrow> nat \<Rightarrow> st \<Rightarrow> job list \<times> st" where
  "runLoop_v1 H 0 s = ([], s)"
| "runLoop_v1 H (Suc n) s =
     (case queue s of
        [] \<Rightarrow> ([], s)
      | j # js \<Rightarrow>
          (case runJob_v1 H j (s\<lparr>queue := js\<rparr>) of
             (Throw e, s1) \<Rightarrow> ([j], s1)
           | (Return r, s1) \<Rightarrow> (case runLoop_v1 H n s1 of (executed, s2) \<Rightarrow> (j # executed, s2))))"

section \<open>Predicates and sample data for the properties\<close>

text \<open>
  A promise object as the constructor makes it: the state is writable, the two reaction
  lists are not, and each holds an array.  The constructor is the only place of either
  file that makes a promise object.
\<close>

definition constructed :: "promise_object \<Rightarrow> bool" where
  "constructed ob =
     (writable (PromiseState ob)
      \<and> \<not> writable (PromiseFulfillReactions ob)
      \<and> \<not> writable (PromiseRejectReactions ob)
      \<and> pvalue (PromiseFulfillReactions ob) \<noteq> None
      \<and> pvalue (PromiseRejectReactions ob) \<noteq> None)"

text \<open>
  The values the resolution procedure is to fulfil with directly: \<^verbatim>\<open>null\<close>, the
  values that are neither objects nor functions, and the objects and functions whose
  \<^verbatim>\<open>then\<close> can be read and is not callable.  \<open>thenable\<close> holds of the objects and
  functions whose \<^verbatim>\<open>then\<close> can be read and is callable.
\<close>

definition nonthenable :: "host \<Rightarrow> val \<Rightarrow> bool" where
  "nonthenable H v =
     (v = Null \<or> (\<not> isObject v \<and> \<not> isFunction v)
      \<or> (case Get_then H v of Return t \<Rightarrow> \<not> isCallable t | Throw e \<Rightarrow> False))"

definition thenable :: "host \<Rightarrow> val \<Rightarrow> bool" where
  "thenable H v =
     (v \<noteq> Null \<and> (isObject v \<or> isFunction v)
      \<and> (case Get_then H v of Return t \<Rightarrow> isCallable t | Throw e \<Rightarrow> False))"

text \<open>The state of a program that has made no promise yet.\<close>

definition blank_object :: promise_object where
  "blank_object =
     \<lparr>PromiseState = \<lparr>pvalue = PENDING, writable = False\<rparr>,
      PromiseFulfillReactions = \<lparr>pvalue = None, writable = False\<rparr>,
      PromiseRejectReactions = \<lparr>pvalue = None, writable = False\<rparr>,
      PromiseIsHandled = \<lparr>pvalue = False, writable = False\<rparr>,
      PromiseResult = None,
      PromiseIsHandled_own = None\<rparr>"

definition empty_st :: st where
  "empty_st =
     \<lparr>heap = (\<lambda>p. blank_object), nextPromise = 0,
      envs = (\<lambda>c. \<lparr>env_promise = 0, alreadySettled = False\<rparr>), nextEnv = 0,
      caps = (\<lambda>a. \<lparr>cap_promise = Undefined, cap_resolve = Undefined, cap_reject = Undefined\<rparr>),
      nextCap = 0, queue = [], console = []\<rparr>"

text \<open>
  A sample caller.  Function 0 returns its argument plus one, function 1 throws its
  argument, function 4 returns \<^verbatim>\<open>null\<close>, every other function returns
  \<^verbatim>\<open>undefined\<close>; object 0 has a \<^verbatim>\<open>then\<close> accessor that throws the string
  \<^verbatim>\<open>boom\<close>, object 1 has \<^verbatim>\<open>then: 3\<close>, object 2 has the caller's function 2 as its
  \<^verbatim>\<open>then\<close>, and so has the caller's function 3; no other object or function of the
  caller has a \<^verbatim>\<open>then\<close>.  Object 3 has a \<^verbatim>\<open>toString\<close> that throws the string
  \<^verbatim>\<open>boom\<close>, object 4 has one that writes a line to the console and returns
  \<^verbatim>\<open>four\<close>; every other object has the default one.  Numbers are written in
  decimal digits, as the language writes the integers of moderate size.
\<close>

definition sample_call :: "nat \<Rightarrow> val \<Rightarrow> val list \<Rightarrow> st \<Rightarrow> completion \<times> st" where
  "sample_call i this args s =
     (if i = 0 then
        (case arg args 0 of Number n \<Rightarrow> (Return (Number (n + 1)), s) | v \<Rightarrow> (Return v, s))
      else if i = 1 then (Throw (arg args 0), s)
      else if i = 4 then (Return Null, s)
      else (Return Undefined, s))"

definition sample_toString :: "val \<Rightarrow> st \<Rightarrow> (val + string) \<times> st" where
  "sample_toString v s =
     (if v = Object 3 then (Inl (Str ''boom''), s)
      else if v = Object 4 then (Inr ''four'', console_log ''toString ran'' s)
      else (Inr ''[object Object]'', s))"

fun digits :: "nat \<Rightarrow> string" where
  "digits n =
     (if n < 10 then [char_of (48 + n)] else digits (n div 10) @ [char_of (48 + n mod 10)])"

declare digits.simps [simp del]

definition sample_number_text :: "int \<Rightarrow> string" where
  "sample_number_text n = (if n < 0 then ''-'' @ digits (nat (- n)) else digits (nat n))"

definition sample_then :: "val \<Rightarrow> completion" where
  "sample_then v =
     (if v = Object 0 then Throw (Str ''boom'')
      else if v = Object 1 then Return (Number 3)
      else if v = Object 2 then Return (Function (UserFn 2))
      else if v = Function (UserFn 3) then Return (Function (UserFn 2))
      else Return Undefined)"

definition sample_host :: host where
  "sample_host = \<lparr>callUser = sample_call, user_then = sample_then,
                   user_toString = sample_toString, number_text = sample_number_text\<rparr>"

text \<open>The promise object the constructor makes.\<close>

definition fresh_object :: promise_object where
  "fresh_object =
     \<lparr>PromiseState = \<lparr>pvalue = PENDING, writable = True\<rparr>,
      PromiseFulfillReactions = \<lparr>pvalue = Some [], writable = False\<rparr>,
      PromiseRejectReactions = \<lparr>pvalue = Some [], writable = False\<rparr>,
      PromiseIsHandled = \<lparr>pvalue = False, writable = True\<rparr>,
      PromiseResult = None,
      PromiseIsHandled_own = None\<rparr>"

text \<open>
  The state after \<^verbatim>\<open>Promise.deferred()\<close> in a program that has made no promise yet,
  for the later and for the earlier file: promise object 0 is pending.
\<close>

definition deferred_st :: st where
  "deferred_st = snd (Promise_deferred empty_st)"

definition deferred_st_v1 :: st where
  "deferred_st_v1 = snd (Promise_deferred_v1 empty_st)"

text \<open>The result is present exactly when the state is no longer pending.\<close>

definition result_matches_state :: "promise_object \<Rightarrow> bool" where
  "result_matches_state ob = ((PromiseResult ob = None) = (pvalue (PromiseState ob) = PENDING))"

text \<open>
  The capability \<^verbatim>\<open>Promise.deferred()\<close> returns in the states above, and reactions on
  it as \<^verbatim>\<open>then\<close> would build them.
\<close>

definition deferred_cap :: capability where
  "deferred_cap = \<lparr>cap_promise = PromiseObject 0, cap_resolve = Function (ResolveFn 0),
                    cap_reject = Function (RejectFn 0)\<rparr>"

definition deferred_cap_v1 :: capability where
  "deferred_cap_v1 = \<lparr>cap_promise = PromiseObject 0, cap_resolve = Function (ResolveFn 0),
                       cap_reject = Function (RejectFn 1)\<rparr>"

text \<open>
  The capability that the next call of \<^verbatim>\<open>newPromiseCapability\<close> (of
  \<^verbatim>\<open>NewPromiseCapability\<close> in the earlier file) will return in state \<open>s\<close>.
\<close>

definition next_capability :: "st \<Rightarrow> capability" where
  "next_capability s =
     \<lparr>cap_promise = PromiseObject (nextPromise s),
      cap_resolve = Function (ResolveFn (nextEnv s)),
      cap_reject = Function (RejectFn (nextEnv s))\<rparr>"

definition next_capability_v1 :: "st \<Rightarrow> capability" where
  "next_capability_v1 s =
     \<lparr>cap_promise = PromiseObject (nextPromise s),
      cap_resolve = Function (ResolveFn (nextEnv s)),
      cap_reject = Function (RejectFn (Suc (nextEnv s)))\<rparr>"

text \<open>
  The queue of \<open>s'\<close> is the queue of \<open>s\<close> with callbacks added at its end.  The caller's
  code has no handle on the callbacks the library hands to \<^verbatim>\<open>setImmediate\<close>, so all it
  can do to the queue is add to it: that is \<open>appends_only\<close>.
\<close>

definition queue_extends :: "st \<Rightarrow> st \<Rightarrow> bool" where
  "queue_extends s s' = (\<exists>js. queue s' = queue s @ js)"

definition appends_only :: "host \<Rightarrow> bool" where
  "appends_only H = (\<forall>i this args s. queue_extends s (snd (callUser H i this args s)))"

text \<open>
  The states after \<^verbatim>\<open>d = Promise.deferred(); d.promise.then(f0); d.promise.then(f1)\<close>
  in the later file, and the states the \<^verbatim>\<open>then\<close> of the earlier file reaches by the same
  two calls from the same starting state; with the two fulfil reactions each has
  registered.
\<close>

definition after_first_then :: st where
  "after_first_then = snd (Promise_then (PromiseObject 0) (Function (UserFn 0)) Undefined deferred_st)"

definition after_two_thens :: st where
  "after_two_thens = snd (Promise_then (PromiseObject 0) (Function (UserFn 1)) Undefined after_first_then)"

definition after_first_then_v1 :: st where
  "after_first_then_v1 =
     snd (Promise_then_v1 (PromiseObject 0) (Function (UserFn 0)) Undefined deferred_st)"

definition after_two_thens_v1 :: st where
  "after_two_thens_v1 =
     snd (Promise_then_v1 (PromiseObject 0) (Function (UserFn 1)) Undefined after_first_then_v1)"

definition first_reaction :: reaction where
  "first_reaction = \<lparr>capability = next_capability deferred_st, rtype = FULFILL,
                      handler = Function (UserFn 0)\<rparr>"

definition second_reaction :: reaction where
  "second_reaction = \<lparr>capability = next_capability after_first_then, rtype = FULFILL,
                       handler = Function (UserFn 1)\<rparr>"

definition first_reaction_v1 :: reaction where
  "first_reaction_v1 = \<lparr>capability = next_capability_v1 deferred_st, rtype = FULFILL,
                         handler = Function (UserFn 0)\<rparr>"

definition second_reaction_v1 :: reaction where
  "second_reaction_v1 = \<lparr>capability = next_capability_v1 after_first_then_v1, rtype = FULFILL,
                          handler = Function (UserFn 1)\<rparr>"

text \<open>
  The states after \<^verbatim>\<open>Promise.reject('x').then(undefined, f4)\<close> in a program that has
  made no promise yet, for the earlier and for the later file: promise 0 is rejected with
  \<^verbatim>\<open>x\<close>, promise 1 is the one \<^verbatim>\<open>then\<close> has returned, and the reaction job is queued.
\<close>

definition rejected_then_v1 :: st where
  "rejected_then_v1 =
     snd (Promise_then_v1 (PromiseObject 0) Undefined (Function (UserFn 4))
            (snd (Promise_reject_v1 sample_host (Str ''x'') empty_st)))"

definition rejected_then :: st where
  "rejected_then =
     snd (Promise_then (PromiseObject 0) Undefined (Function (UserFn 4))
            (snd (Promise_reject sample_host (Str ''x'') empty_st)))"

section \<open>Settlement of a promise object\<close>

lemma fold_setImmediate:
  "fold (\<lambda>r. setImmediate (f r)) rs s = s\<lparr>queue := queue s @ map f rs\<rparr>"
  by (induction rs arbitrary: s) (simp_all add: setImmediate_def)

lemma triggerPromiseReactions_Some:
  "triggerPromiseReactions (Some rs) v s =
     (Return Undefined, s\<lparr>queue := queue s @ map (\<lambda>r. ReactionJob r v) rs\<rparr>)"
  by (simp add: triggerPromiseReactions_def fold_setImmediate)

lemma TriggerPromiseReactions_Some:
  "TriggerPromiseReactions (Some rs) v s =
     (Return Undefined, s\<lparr>queue := queue s @ map (\<lambda>r. ReactionJob r v) rs\<rparr>)"
  by (simp add: TriggerPromiseReactions_def fold_setImmediate)

text \<open>
  On a pending promise object that the constructor made, \<^verbatim>\<open>fulfillPromise\<close> stores the
  value and the state and schedules one job for each fulfil reaction, in the order of the
  list; the two assignments of \<^verbatim>\<open>undefined\<close> to the reaction lists change nothing.
\<close>

lemma fulfillPromise_pending:
  assumes "constructed (heap s p)" "pvalue (PromiseState (heap s p)) = PENDING"
    "pvalue (PromiseFulfillReactions (heap s p)) = Some rs"
  shows "fulfillPromise p v s =
     (Return Undefined,
      s\<lparr>heap := (heap s)(p := (heap s p)
            \<lparr>PromiseResult := Some v,
             PromiseState := (PromiseState (heap s p))\<lparr>pvalue := FULFILLED\<rparr>\<rparr>),
        queue := queue s @ map (\<lambda>r. ReactionJob r v) rs\<rparr>)"
  using assms
  by (simp add: fulfillPromise_def constructed_def Put_def Let_def triggerPromiseReactions_Some)

lemma rejectPromise_pending:
  assumes "constructed (heap s p)" "pvalue (PromiseState (heap s p)) = PENDING"
    "pvalue (PromiseRejectReactions (heap s p)) = Some rs"
  shows "rejectPromise p v s =
     (Return Undefined,
      s\<lparr>heap := (heap s)(p := (heap s p)
            \<lparr>PromiseResult := Some v,
             PromiseState := (PromiseState (heap s p))\<lparr>pvalue := REJECTED\<rparr>\<rparr>),
        queue := queue s @ map (\<lambda>r. ReactionJob r v) rs\<rparr>)"
  using assms
  by (simp add: rejectPromise_def constructed_def Put_def Let_def triggerPromiseReactions_Some)

lemma FulfillPromise_constructed:
  assumes "constructed (heap s p)"
    "pvalue (PromiseFulfillReactions (heap s p)) = Some rs"
  shows "FulfillPromise p v s =
     (Return Undefined,
      s\<lparr>heap := (heap s)(p := (heap s p)
            \<lparr>PromiseResult := Some v,
             PromiseState := (PromiseState (heap s p))\<lparr>pvalue := FULFILLED\<rparr>\<rparr>),
        queue := queue s @ map (\<lambda>r. ReactionJob r v) rs\<rparr>)"
  using assms
  by (simp add: FulfillPromise_def constructed_def Put_def Let_def TriggerPromiseReactions_Some)

lemma RejectPromise_constructed:
  assumes "constructed (heap s p)"
    "pvalue (PromiseRejectReactions (heap s p)) = Some rs"
  shows "RejectPromise p v s =
     (Return Undefined,
      s\<lparr>heap := (heap s)(p := (heap s p)
            \<lparr>PromiseResult := Some v,
             PromiseState := (PromiseState (heap s p))\<lparr>pvalue := REJECTED\<rparr>\<rparr>),
        console := (if pvalue (PromiseIsHandled (heap s p)) then console s
                    else console s @ [''HostPromiseRejectionTracker is invoked: reject'']),
        queue := queue s @ map (\<lambda>r. ReactionJob r v) rs\<rparr>)"
  using assms
  by (simp add: RejectPromise_def constructed_def Put_def Let_def TriggerPromiseReactions_Some
      HostPromiseRejectionTracker_def console_log_def)

text \<open>
  The later file guards both settle functions: on a promise object that is no longer
  pending they return at once and the state is untouched.
\<close>

lemma settled_noop:
  "pvalue (PromiseState (heap s p)) \<noteq> PENDING \<Longrightarrow>
     fulfillPromise p v s = (Return Undefined, s) \<and> rejectPromise p w s = (Return Undefined, s)"
  by (simp add: fulfillPromise_def rejectPromise_def)

lemma constructed_reactions:
  "constructed ob \<Longrightarrow>
     \<exists>frs rrs. pvalue (PromiseFulfillReactions ob) = Some frs
       \<and> pvalue (PromiseRejectReactions ob) = Some rrs"
  by (auto simp: constructed_def)

section \<open>Capabilities\<close>

lemma closure_env_all:
  "(r::closure_env)\<lparr>env_promise := a, alreadySettled := b\<rparr>
     = \<lparr>env_promise = a, alreadySettled = b\<rparr>"
  by (cases r) simp

text \<open>
  \<^verbatim>\<open>newPromiseCapability\<close> never throws: it allocates a promise object, a closure
  environment and the capability, and returns the capability whose functions are the two
  closures over that one environment.
\<close>

lemma newPromiseCapability_eq:
  "newPromiseCapability s =
     (Inr \<lparr>cap_promise = PromiseObject (nextPromise s),
           cap_resolve = Function (ResolveFn (nextEnv s)),
           cap_reject = Function (RejectFn (nextEnv s))\<rparr>,
      s\<lparr>heap := (heap s)(nextPromise s := fresh_object),
        nextPromise := Suc (nextPromise s),
        envs := (envs s)(nextEnv s := \<lparr>env_promise = nextPromise s, alreadySettled = False\<rparr>),
        nextEnv := Suc (nextEnv s),
        caps := (caps s)(nextCap s :=
          \<lparr>cap_promise = PromiseObject (nextPromise s),
           cap_resolve = Function (ResolveFn (nextEnv s)),
           cap_reject = Function (RejectFn (nextEnv s))\<rparr>),
        nextCap := Suc (nextCap s)\<rparr>)"
  by (simp add: newPromiseCapability_def Promise_construct_def createResolvingFunctions_def
      newPromiseCapability_executor_def fresh_object_def Let_def)

text \<open>
  In the earlier file the two closures of a capability have an environment each.
\<close>

lemma NewPromiseCapability_eq:
  "NewPromiseCapability s =
     (Inr \<lparr>cap_promise = PromiseObject (nextPromise s),
           cap_resolve = Function (ResolveFn (nextEnv s)),
           cap_reject = Function (RejectFn (Suc (nextEnv s)))\<rparr>,
      s\<lparr>heap := (heap s)(nextPromise s := fresh_object),
        nextPromise := Suc (nextPromise s),
        envs := (envs s)(nextEnv s := \<lparr>env_promise = nextPromise s, alreadySettled = False\<rparr>,
                         Suc (nextEnv s) := \<lparr>env_promise = nextPromise s, alreadySettled = False\<rparr>),
        nextEnv := Suc (Suc (nextEnv s)),
        caps := (caps s)(nextCap s :=
          \<lparr>cap_promise = PromiseObject (nextPromise s),
           cap_resolve = Function (ResolveFn (nextEnv s)),
           cap_reject = Function (RejectFn (Suc (nextEnv s)))\<rparr>),
        nextCap := Suc (nextCap s)\<rparr>)"
  by (simp add: NewPromiseCapability_def Promise_construct_v1_def CreateResolvingFunctions_def
      NewPromiseCapability_executor_def fresh_object_def Let_def getPromiseResolveFunctions_def
      getPromiseRejectFunctions_def setPromise_def setAlreadyResolved_def closure_env_all)

lemma constructed_fresh_object: "constructed fresh_object"
  by (simp add: constructed_def fresh_object_def)

lemma deferred_st_facts:
  "heap deferred_st 0 = fresh_object"
  "envs deferred_st 0 = \<lparr>env_promise = 0, alreadySettled = False\<rparr>"
  "queue deferred_st = []"
  "nextPromise deferred_st = 1"
  by (simp_all add: deferred_st_def Promise_deferred_def newPromiseCapability_eq empty_st_def)

lemma deferred_st_v1_facts:
  "heap deferred_st_v1 0 = fresh_object"
  "envs deferred_st_v1 0 = \<lparr>env_promise = 0, alreadySettled = False\<rparr>"
  "envs deferred_st_v1 (Suc 0) = \<lparr>env_promise = 0, alreadySettled = False\<rparr>"
  "queue deferred_st_v1 = []"
  "console deferred_st_v1 = []"
  "nextPromise deferred_st_v1 = 1"
  by (simp_all add: deferred_st_v1_def Promise_deferred_v1_def NewPromiseCapability_eq empty_st_def)

section \<open>Resolving a promise with itself\<close>

lemma resolve_self:
  assumes "constructed (heap s p)" "pvalue (PromiseState (heap s p)) = PENDING"
    "env_promise (envs s c) = p" "\<not> alreadySettled (envs s c)"
    "pvalue (PromiseRejectReactions (heap s p)) = Some rs"
  shows "createResolvingFunctions_resolve H c (PromiseObject p) s =
     (Return Undefined,
      s\<lparr>envs := (envs s)(c := (envs s c)\<lparr>alreadySettled := True\<rparr>),
        heap := (heap s)(p := (heap s p)
            \<lparr>PromiseResult := Some (TypeError ''resolution === promise''),
             PromiseState := (PromiseState (heap s p))\<lparr>pvalue := REJECTED\<rparr>\<rparr>),
        queue := queue s @ map (\<lambda>r. ReactionJob r (TypeError ''resolution === promise'')) rs\<rparr>)"
proof -
  let ?s1 = "s\<lparr>envs := (envs s)(c := (envs s c)\<lparr>alreadySettled := True\<rparr>)\<rparr>"
  have "rejectPromise p (TypeError ''resolution === promise'') ?s1 = (Return Undefined,
      ?s1\<lparr>heap := (heap ?s1)(p := (heap ?s1 p)
            \<lparr>PromiseResult := Some (TypeError ''resolution === promise''),
             PromiseState := (PromiseState (heap ?s1 p))\<lparr>pvalue := REJECTED\<rparr>\<rparr>),
        queue := queue ?s1 @ map (\<lambda>r. ReactionJob r (TypeError ''resolution === promise'')) rs\<rparr>)"
    by (rule rejectPromise_pending) (use assms in simp_all)
  then show ?thesis
    using assms(3,4) by (simp add: createResolvingFunctions_resolve_def Let_def)
qed

lemma resolve_self_v1:
  assumes "constructed (heap s p)"
    "env_promise (envs s c) = p" "\<not> alreadySettled (envs s c)"
    "pvalue (PromiseRejectReactions (heap s p)) = Some rs"
  shows "getPromiseResolveFunctions_Function H c (PromiseObject p) s =
     (Return Undefined,
      s\<lparr>envs := (envs s)(c := (envs s c)\<lparr>alreadySettled := True\<rparr>),
        heap := (heap s)(p := (heap s p)
            \<lparr>PromiseResult := Some (TypeError ''resolution === promise''),
             PromiseState := (PromiseState (heap s p))\<lparr>pvalue := REJECTED\<rparr>\<rparr>),
        console := (if pvalue (PromiseIsHandled (heap s p)) then console s
                    else console s @ [''HostPromiseRejectionTracker is invoked: reject'']),
        queue := queue s @ map (\<lambda>r. ReactionJob r (TypeError ''resolution === promise'')) rs\<rparr>)"
proof -
  let ?s1 = "s\<lparr>envs := (envs s)(c := (envs s c)\<lparr>alreadySettled := True\<rparr>)\<rparr>"
  have "RejectPromise p (TypeError ''resolution === promise'') ?s1 = (Return Undefined,
      ?s1\<lparr>heap := (heap ?s1)(p := (heap ?s1 p)
            \<lparr>PromiseResult := Some (TypeError ''resolution === promise''),
             PromiseState := (PromiseState (heap ?s1 p))\<lparr>pvalue := REJECTED\<rparr>\<rparr>),
        console := (if pvalue (PromiseIsHandled (heap ?s1 p)) then console ?s1
                    else console ?s1 @ [''HostPromiseRejectionTracker is invoked: reject'']),
        queue := queue ?s1 @ map (\<lambda>r. ReactionJob r (TypeError ''resolution === promise'')) rs\<rparr>)"
    by (rule RejectPromise_constructed) (use assms in simp_all)
  then show ?thesis
    using assms(2,3) by (simp add: getPromiseResolveFunctions_Function_def Let_def)
qed

text \<open>
  C7.  Take a pending promise object \<open>p\<close> that the constructor made, and a resolving
  pair of \<open>p\<close> that has not been used (\<open>c\<close> is the environment of its resolve closure).
  In both files, calling that resolve closure with \<open>p\<close> itself returns normally (it
  neither throws nor fails to return), leaves \<open>p\<close> rejected with the TypeError
  \<^verbatim>\<open>resolution === promise\<close> as its result, and adds to the queue only the jobs of
  the reject reactions of \<open>p\<close>: no job that would assimilate \<open>p\<close> is scheduled.
\<close>

theorem self_resolution_rejects:
  assumes "constructed (heap s p)" "pvalue (PromiseState (heap s p)) = PENDING"
    "env_promise (envs s c) = p" "\<not> alreadySettled (envs s c)"
    "pvalue (PromiseRejectReactions (heap s p)) = Some rs"
    "s' = snd (createResolvingFunctions_resolve H c (PromiseObject p) s)"
    "t' = snd (getPromiseResolveFunctions_Function H c (PromiseObject p) s)"
  shows "fst (createResolvingFunctions_resolve H c (PromiseObject p) s) = Return Undefined
    \<and> pvalue (PromiseState (heap s' p)) = REJECTED
    \<and> PromiseResult (heap s' p) = Some (TypeError ''resolution === promise'')
    \<and> queue s' = queue s @ map (\<lambda>r. ReactionJob r (TypeError ''resolution === promise'')) rs
    \<and> fst (getPromiseResolveFunctions_Function H c (PromiseObject p) s) = Return Undefined
    \<and> pvalue (PromiseState (heap t' p)) = REJECTED
    \<and> PromiseResult (heap t' p) = Some (TypeError ''resolution === promise'')
    \<and> queue t' = queue s @ map (\<lambda>r. ReactionJob r (TypeError ''resolution === promise'')) rs"
  using assms resolve_self [OF assms(1-5), of H] resolve_self_v1 [OF assms(1,3,4,5), of H]
  by simp

theorem self_resolution_rejects_witness:
  "constructed (heap deferred_st 0) \<and> pvalue (PromiseState (heap deferred_st 0)) = PENDING
   \<and> env_promise (envs deferred_st 0) = 0 \<and> \<not> alreadySettled (envs deferred_st 0)
   \<and> fst (createResolvingFunctions_resolve sample_host 0 (PromiseObject 0) deferred_st)
       = Return Undefined
   \<and> pvalue (PromiseState (heap (snd (createResolvingFunctions_resolve sample_host 0
         (PromiseObject 0) deferred_st)) 0)) = REJECTED
   \<and> PromiseResult (heap (snd (createResolvingFunctions_resolve sample_host 0
         (PromiseObject 0) deferred_st)) 0) = Some (TypeError ''resolution === promise'')
   \<and> fst (getPromiseResolveFunctions_Function sample_host 0 (PromiseObject 0) deferred_st)
       = Return Undefined
   \<and> pvalue (PromiseState (heap (snd (getPromiseResolveFunctions_Function sample_host 0
         (PromiseObject 0) deferred_st)) 0)) = REJECTED
   \<and> PromiseResult (heap (snd (getPromiseResolveFunctions_Function sample_host 0
         (PromiseObject 0) deferred_st)) 0) = Some (TypeError ''resolution === promise'')"
proof -
  have h1: "constructed (heap deferred_st 0)"
    by (simp add: deferred_st_facts constructed_fresh_object)
  have h2: "pvalue (PromiseState (heap deferred_st 0)) = PENDING"
    by (simp add: deferred_st_facts fresh_object_def)
  have h3: "env_promise (envs deferred_st 0) = 0"
    by (simp add: deferred_st_facts)
  have h4: "\<not> alreadySettled (envs deferred_st 0)"
    by (simp add: deferred_st_facts)
  have h5: "pvalue (PromiseRejectReactions (heap deferred_st 0)) = Some []"
    by (simp add: deferred_st_facts fresh_object_def)
  show ?thesis
    using h1 h2 h3 h4 self_resolution_rejects [OF h1 h2 h3 h4 h5 refl refl, of sample_host]
    by simp
qed

section \<open>The resolution procedure on values that are not thenables\<close>

text \<open>
  The later file, on the first call of the resolve closure of a pending promise object
  with a value that is \<^verbatim>\<open>null\<close>, a primitive, or an object or function whose
  \<^verbatim>\<open>then\<close> is not callable: the closure returns normally, the promise object is
  fulfilled with that very value, and the only jobs scheduled are those of the fulfil
  reactions (no \<open>ResolveThenableJob\<close>).
\<close>

lemma resolve_nonthenable_fulfils:
  assumes "constructed (heap s p)" "pvalue (PromiseState (heap s p)) = PENDING"
    "env_promise (envs s c) = p" "\<not> alreadySettled (envs s c)"
    "nonthenable H v" "pvalue (PromiseFulfillReactions (heap s p)) = Some rs"
  shows "createResolvingFunctions_resolve H c v s =
     (Return Undefined,
      s\<lparr>envs := (envs s)(c := (envs s c)\<lparr>alreadySettled := True\<rparr>),
        heap := (heap s)(p := (heap s p)
            \<lparr>PromiseResult := Some v,
             PromiseState := (PromiseState (heap s p))\<lparr>pvalue := FULFILLED\<rparr>\<rparr>),
        queue := queue s @ map (\<lambda>r. ReactionJob r v) rs\<rparr>)"
proof -
  let ?s1 = "s\<lparr>envs := (envs s)(c := (envs s c)\<lparr>alreadySettled := True\<rparr>)\<rparr>"
  have f: "fulfillPromise p v ?s1 = (Return Undefined,
      ?s1\<lparr>heap := (heap ?s1)(p := (heap ?s1 p)
            \<lparr>PromiseResult := Some v,
             PromiseState := (PromiseState (heap ?s1 p))\<lparr>pvalue := FULFILLED\<rparr>\<rparr>),
        queue := queue ?s1 @ map (\<lambda>r. ReactionJob r v) rs\<rparr>)"
    by (rule fulfillPromise_pending) (use assms in simp_all)
  have ne: "v \<noteq> PromiseObject p"
    using assms(5) by (auto simp: nonthenable_def isObject_def isFunction_def)
  show ?thesis
    using assms(3,4,5) ne f
    by (auto simp: createResolvingFunctions_resolve_def Let_def nonthenable_def
        split: completion.splits)
qed

text \<open>
  C3.  The earlier file tests \<^verbatim>\<open>typeof resolution === 'object'\<close> only, which holds of
  \<^verbatim>\<open>null\<close>, and reads \<^verbatim>\<open>resolution.then\<close> outside any \<^verbatim>\<open>try\<close>.  After
  \<^verbatim>\<open>d = Promise.deferred()\<close>, the call \<^verbatim>\<open>d.resolve(null)\<close> throws a TypeError to its
  caller; the promise stays pending without a result, and the resolve closure has marked
  itself used.
\<close>

theorem resolve_null_throws_v1:
  "fst (Call_v1 sample_host (Function (ResolveFn 0)) Undefined [Null] deferred_st_v1)
     = Throw (TypeError ''Cannot read properties of null'')
   \<and> pvalue (PromiseState (heap (snd (Call_v1 sample_host (Function (ResolveFn 0)) Undefined
        [Null] deferred_st_v1)) 0)) = PENDING
   \<and> PromiseResult (heap (snd (Call_v1 sample_host (Function (ResolveFn 0)) Undefined
        [Null] deferred_st_v1)) 0) = None
   \<and> alreadySettled (envs (snd (Call_v1 sample_host (Function (ResolveFn 0)) Undefined
        [Null] deferred_st_v1)) 0)"
  by (simp add: getPromiseResolveFunctions_Function_def deferred_st_v1_facts arg_def
      isObject_def Let_def fresh_object_def)

section \<open>A \<^verbatim>\<open>then\<close> property whose read throws\<close>

text \<open>
  The later file reads \<^verbatim>\<open>resolution.then\<close> inside a \<^verbatim>\<open>try\<close>: on the first call of the
  resolve closure of a pending promise object with an object or function whose \<^verbatim>\<open>then\<close>
  throws \<open>e\<close> when read, the closure returns normally and the promise object is rejected
  with \<open>e\<close>.
\<close>

lemma resolve_throwing_then_rejects:
  assumes "constructed (heap s p)" "pvalue (PromiseState (heap s p)) = PENDING"
    "env_promise (envs s c) = p" "\<not> alreadySettled (envs s c)"
    "v \<noteq> Null" "isObject v \<or> isFunction v" "Get_then H v = Throw e"
    "pvalue (PromiseRejectReactions (heap s p)) = Some rs"
  shows "createResolvingFunctions_resolve H c v s =
     (Return Undefined,
      s\<lparr>envs := (envs s)(c := (envs s c)\<lparr>alreadySettled := True\<rparr>),
        heap := (heap s)(p := (heap s p)
            \<lparr>PromiseResult := Some e,
             PromiseState := (PromiseState (heap s p))\<lparr>pvalue := REJECTED\<rparr>\<rparr>),
        queue := queue s @ map (\<lambda>r. ReactionJob r e) rs\<rparr>)"
proof -
  let ?s1 = "s\<lparr>envs := (envs s)(c := (envs s c)\<lparr>alreadySettled := True\<rparr>)\<rparr>"
  have f: "rejectPromise p e ?s1 = (Return Undefined,
      ?s1\<lparr>heap := (heap ?s1)(p := (heap ?s1 p)
            \<lparr>PromiseResult := Some e,
             PromiseState := (PromiseState (heap ?s1 p))\<lparr>pvalue := REJECTED\<rparr>\<rparr>),
        queue := queue ?s1 @ map (\<lambda>r. ReactionJob r e) rs\<rparr>)"
    by (rule rejectPromise_pending) (use assms in simp_all)
  have ne: "v \<noteq> PromiseObject p"
    using assms(7) by auto
  show ?thesis
    using assms(3-7) ne f
    by (auto simp: createResolvingFunctions_resolve_def Let_def)
qed

text \<open>
  C4.  The earlier file reads \<^verbatim>\<open>resolution.then\<close> outside any \<^verbatim>\<open>try\<close>.  Object 0 of
  the sample caller has a \<^verbatim>\<open>then\<close> accessor that throws the string \<^verbatim>\<open>boom\<close>.  After
  \<^verbatim>\<open>d = Promise.deferred()\<close>, the call \<^verbatim>\<open>d.resolve(object0)\<close> throws \<^verbatim>\<open>boom\<close> to
  its caller, and the promise stays pending without a result.
\<close>

theorem resolve_throwing_then_raises_v1:
  "Get_then sample_host (Object 0) = Throw (Str ''boom'')
   \<and> fst (Call_v1 sample_host (Function (ResolveFn 0)) Undefined [Object 0] deferred_st_v1)
       = Throw (Str ''boom'')
   \<and> pvalue (PromiseState (heap (snd (Call_v1 sample_host (Function (ResolveFn 0)) Undefined
        [Object 0] deferred_st_v1)) 0)) = PENDING
   \<and> PromiseResult (heap (snd (Call_v1 sample_host (Function (ResolveFn 0)) Undefined
        [Object 0] deferred_st_v1)) 0) = None"
  by (simp add: getPromiseResolveFunctions_Function_def deferred_st_v1_facts arg_def
      isObject_def Let_def fresh_object_def sample_host_def sample_then_def)

section \<open>The resolving pair is used once\<close>

lemma envs_triggerPromiseReactions:
  "envs (snd (triggerPromiseReactions rs v s)) = envs s"
  by (simp add: triggerPromiseReactions_def fold_setImmediate split: option.splits)

lemma envs_fulfillPromise: "envs (snd (fulfillPromise p v s)) = envs s"
  by (simp add: fulfillPromise_def Let_def envs_triggerPromiseReactions)

lemma envs_rejectPromise: "envs (snd (rejectPromise p v s)) = envs s"
  by (simp add: rejectPromise_def Let_def envs_triggerPromiseReactions)

text \<open>
  The later file.  Once the flag of a pair's environment is set, both closures of the
  pair return at once and change nothing.
\<close>

lemma used_pair_noop:
  assumes "alreadySettled (envs s c)"
  shows "createResolvingFunctions_resolve H c v s = (Return Undefined, s)"
    and "createResolvingFunctions_reject c w s = (Return Undefined, s)"
  using assms
  by (simp_all add: createResolvingFunctions_resolve_def createResolvingFunctions_reject_def)

text \<open>Each closure sets the flag of the environment both share, whatever it is given.\<close>

lemma resolve_marks_pair:
  "alreadySettled (envs (snd (createResolvingFunctions_resolve H c v s)) c)"
proof (cases "alreadySettled (envs s c)")
  case True
  then show ?thesis by (simp add: used_pair_noop)
next
  case False
  let ?s1 = "s\<lparr>envs := (envs s)(c := (envs s c)\<lparr>alreadySettled := True\<rparr>)\<rparr>"
  have s1: "alreadySettled (envs ?s1 c)" by simp
  have a: "\<And>q x. alreadySettled (envs (snd (fulfillPromise q x ?s1)) c)"
    using s1 by (simp only: envs_fulfillPromise)
  have b: "\<And>q x. alreadySettled (envs (snd (rejectPromise q x ?s1)) c)"
    using s1 by (simp only: envs_rejectPromise)
  have c: "\<And>q x y t. fulfillPromise q x ?s1 = (Throw y, t) \<Longrightarrow>
              alreadySettled (envs (snd (rejectPromise q y t)) c)"
  proof -
    fix q x y t
    assume "fulfillPromise q x ?s1 = (Throw y, t)"
    then have "t = snd (fulfillPromise q x ?s1)" by simp
    then have "alreadySettled (envs t c)" using a by simp
    then show "alreadySettled (envs (snd (rejectPromise q y t)) c)"
      by (simp only: envs_rejectPromise)
  qed
  have d: "\<And>q x y t. fulfillPromise q x ?s1 = (Return y, t) \<Longrightarrow> alreadySettled (envs t c)"
  proof -
    fix q x y t
    assume "fulfillPromise q x ?s1 = (Return y, t)"
    then have "t = snd (fulfillPromise q x ?s1)" by simp
    then show "alreadySettled (envs t c)" using a by simp
  qed
  show ?thesis
    using False a b c d
    by (auto simp: createResolvingFunctions_resolve_def Let_def setImmediate_def
        split: completion.splits prod.splits)
qed

lemma reject_marks_pair:
  "alreadySettled (envs (snd (createResolvingFunctions_reject c v s)) c)"
  by (simp add: createResolvingFunctions_reject_def Let_def envs_rejectPromise)

text \<open>
  The later file: after a call of either closure of a pair, with any argument and in any
  state, a call of either closure of the same pair changes nothing.
\<close>

lemma pair_one_shot:
  "createResolvingFunctions_resolve H c w (snd (createResolvingFunctions_resolve H c v s))
     = (Return Undefined, snd (createResolvingFunctions_resolve H c v s))"
  "createResolvingFunctions_reject c w (snd (createResolvingFunctions_resolve H c v s))
     = (Return Undefined, snd (createResolvingFunctions_resolve H c v s))"
  "createResolvingFunctions_resolve H c w (snd (createResolvingFunctions_reject c v s))
     = (Return Undefined, snd (createResolvingFunctions_reject c v s))"
  "createResolvingFunctions_reject c w (snd (createResolvingFunctions_reject c v s))
     = (Return Undefined, snd (createResolvingFunctions_reject c v s))"
  by (simp_all add: used_pair_noop resolve_marks_pair reject_marks_pair)

text \<open>
  C1.  In the earlier file \<^verbatim>\<open>CreateResolvingFunctions\<close> hands the boolean
  \<^verbatim>\<open>alreadyResolved\<close> to each closure's setter, so each closure has a flag of its own.
  After \<^verbatim>\<open>d = Promise.deferred()\<close>, the call \<^verbatim>\<open>d.resolve(1)\<close> fulfils the promise with
  1 and leaves the flag of \<^verbatim>\<open>d.reject\<close> unset; the later call \<^verbatim>\<open>d.reject(2)\<close> of the same
  pair then has an effect: the promise becomes rejected with 2.
\<close>

theorem pair_flags_not_shared_v1:
  "cap_resolve (projr (fst (Promise_deferred_v1 empty_st))) = Function (ResolveFn 0)
   \<and> cap_reject (projr (fst (Promise_deferred_v1 empty_st))) = Function (RejectFn 1)
   \<and> pvalue (PromiseState (heap (snd (Call_v1 sample_host (Function (ResolveFn 0)) Undefined
        [Number 1] deferred_st_v1)) 0)) = FULFILLED
   \<and> PromiseResult (heap (snd (Call_v1 sample_host (Function (ResolveFn 0)) Undefined
        [Number 1] deferred_st_v1)) 0) = Some (Number 1)
   \<and> alreadySettled (envs (snd (Call_v1 sample_host (Function (ResolveFn 0)) Undefined
        [Number 1] deferred_st_v1)) 0)
   \<and> \<not> alreadySettled (envs (snd (Call_v1 sample_host (Function (ResolveFn 0)) Undefined
        [Number 1] deferred_st_v1)) 1)
   \<and> pvalue (PromiseState (heap (snd (Call_v1 sample_host (Function (RejectFn 1)) Undefined
        [Number 2] (snd (Call_v1 sample_host (Function (ResolveFn 0)) Undefined
        [Number 1] deferred_st_v1)))) 0)) = REJECTED
   \<and> PromiseResult (heap (snd (Call_v1 sample_host (Function (RejectFn 1)) Undefined
        [Number 2] (snd (Call_v1 sample_host (Function (ResolveFn 0)) Undefined
        [Number 1] deferred_st_v1)))) 0) = Some (Number 2)"
  by (simp add: getPromiseResolveFunctions_Function_def getPromiseRejectFunctions_Function_def
      FulfillPromise_def RejectPromise_def TriggerPromiseReactions_Some Put_def
      HostPromiseRejectionTracker_def console_log_def empty_st_def
      Promise_deferred_v1_def NewPromiseCapability_eq deferred_st_v1_facts arg_def isObject_def Let_def fresh_object_def)

section \<open>The state of a settled promise\<close>

text \<open>
  The later file: a settlement of a pending promise object that the constructor made
  takes effect, and after it every further \<^verbatim>\<open>fulfillPromise\<close> or \<^verbatim>\<open>rejectPromise\<close> on
  that object, with any value, returns the state it was given: state and result, and
  everything else, stay as they are.
\<close>

lemma settle_once:
  assumes "constructed (heap s p)" "pvalue (PromiseState (heap s p)) = PENDING"
  shows "pvalue (PromiseState (heap (snd (fulfillPromise p v s)) p)) = FULFILLED"
    and "PromiseResult (heap (snd (fulfillPromise p v s)) p) = Some v"
    and "fulfillPromise p w (snd (fulfillPromise p v s)) = (Return Undefined, snd (fulfillPromise p v s))"
    and "rejectPromise p w (snd (fulfillPromise p v s)) = (Return Undefined, snd (fulfillPromise p v s))"
    and "pvalue (PromiseState (heap (snd (rejectPromise p v s)) p)) = REJECTED"
    and "PromiseResult (heap (snd (rejectPromise p v s)) p) = Some v"
    and "fulfillPromise p w (snd (rejectPromise p v s)) = (Return Undefined, snd (rejectPromise p v s))"
    and "rejectPromise p w (snd (rejectPromise p v s)) = (Return Undefined, snd (rejectPromise p v s))"
proof -
  obtain frs rrs where l: "pvalue (PromiseFulfillReactions (heap s p)) = Some frs"
      "pvalue (PromiseRejectReactions (heap s p)) = Some rrs"
    using constructed_reactions [OF assms(1)] by blast
  note f = fulfillPromise_pending [OF assms l(1)] and r = rejectPromise_pending [OF assms l(2)]
  show "pvalue (PromiseState (heap (snd (fulfillPromise p v s)) p)) = FULFILLED"
    and "PromiseResult (heap (snd (fulfillPromise p v s)) p) = Some v"
    and "pvalue (PromiseState (heap (snd (rejectPromise p v s)) p)) = REJECTED"
    and "PromiseResult (heap (snd (rejectPromise p v s)) p) = Some v"
    by (simp_all add: f r)
  then show "fulfillPromise p w (snd (fulfillPromise p v s)) = (Return Undefined, snd (fulfillPromise p v s))"
    and "rejectPromise p w (snd (fulfillPromise p v s)) = (Return Undefined, snd (fulfillPromise p v s))"
    and "fulfillPromise p w (snd (rejectPromise p v s)) = (Return Undefined, snd (rejectPromise p v s))"
    and "rejectPromise p w (snd (rejectPromise p v s)) = (Return Undefined, snd (rejectPromise p v s))"
    by (simp_all add: settled_noop)
qed

text \<open>
  The later file: no settle function and no call of a resolving closure changes the state
  or the result of a promise object that is already settled, whichever promise the call
  is about.
\<close>

lemma settled_kept_by_fulfillPromise:
  assumes "pvalue (PromiseState (heap s q)) \<noteq> PENDING"
  shows "PromiseState (heap (snd (fulfillPromise p v s)) q) = PromiseState (heap s q)
    \<and> PromiseResult (heap (snd (fulfillPromise p v s)) q) = PromiseResult (heap s q)"
  using assms
  by (cases "p = q")
    (auto simp: fulfillPromise_def Let_def triggerPromiseReactions_def fold_setImmediate
      split: option.splits)

lemma settled_kept_by_rejectPromise:
  assumes "pvalue (PromiseState (heap s q)) \<noteq> PENDING"
  shows "PromiseState (heap (snd (rejectPromise p v s)) q) = PromiseState (heap s q)
    \<and> PromiseResult (heap (snd (rejectPromise p v s)) q) = PromiseResult (heap s q)"
  using assms
  by (cases "p = q")
    (auto simp: rejectPromise_def Let_def triggerPromiseReactions_def fold_setImmediate
      split: option.splits)

lemma settled_kept_by_reject:
  assumes "pvalue (PromiseState (heap s q)) \<noteq> PENDING"
  shows "PromiseState (heap (snd (createResolvingFunctions_reject c v s)) q) = PromiseState (heap s q)
    \<and> PromiseResult (heap (snd (createResolvingFunctions_reject c v s)) q) = PromiseResult (heap s q)"
proof (cases "alreadySettled (envs s c)")
  case True
  then show ?thesis by (simp add: used_pair_noop)
next
  case False
  let ?s1 = "s\<lparr>envs := (envs s)(c := (envs s c)\<lparr>alreadySettled := True\<rparr>)\<rparr>"
  have "pvalue (PromiseState (heap ?s1 q)) \<noteq> PENDING" using assms by simp
  from settled_kept_by_rejectPromise [OF this] show ?thesis
    using False by (simp add: createResolvingFunctions_reject_def Let_def)
qed

lemma settled_kept_by_resolve:
  assumes "pvalue (PromiseState (heap s q)) \<noteq> PENDING"
  shows "PromiseState (heap (snd (createResolvingFunctions_resolve H c v s)) q) = PromiseState (heap s q)
    \<and> PromiseResult (heap (snd (createResolvingFunctions_resolve H c v s)) q) = PromiseResult (heap s q)"
proof (cases "alreadySettled (envs s c)")
  case True
  then show ?thesis by (simp add: used_pair_noop)
next
  case False
  let ?s1 = "s\<lparr>envs := (envs s)(c := (envs s c)\<lparr>alreadySettled := True\<rparr>)\<rparr>"
  let ?kept = "\<lambda>t. PromiseState (heap t q) = PromiseState (heap s q)
                 \<and> PromiseResult (heap t q) = PromiseResult (heap s q)"
  have n: "pvalue (PromiseState (heap ?s1 q)) \<noteq> PENDING" using assms by simp
  have a: "\<And>p x. ?kept (snd (fulfillPromise p x ?s1))"
    using settled_kept_by_fulfillPromise [OF n] by simp
  have b: "\<And>p x. ?kept (snd (rejectPromise p x ?s1))"
    using settled_kept_by_rejectPromise [OF n] by simp
  have c: "\<And>p x y t. fulfillPromise p x ?s1 = (Throw y, t) \<Longrightarrow> ?kept (snd (rejectPromise p y t))"
  proof -
    fix p x y t
    assume "fulfillPromise p x ?s1 = (Throw y, t)"
    then have t: "t = snd (fulfillPromise p x ?s1)" by simp
    then have k: "?kept t" using a by simp
    then have "pvalue (PromiseState (heap t q)) \<noteq> PENDING" using assms by simp
    from settled_kept_by_rejectPromise [OF this] k show "?kept (snd (rejectPromise p y t))"
      by simp
  qed
  have d: "\<And>p x y t. fulfillPromise p x ?s1 = (Return y, t) \<Longrightarrow> ?kept t"
  proof -
    fix p x y t
    assume "fulfillPromise p x ?s1 = (Return y, t)"
    then have "t = snd (fulfillPromise p x ?s1)" by simp
    then show "?kept t" using a by simp
  qed
  show ?thesis
    using False a b c d
    by (auto simp: createResolvingFunctions_resolve_def Let_def setImmediate_def
        split: completion.splits prod.splits)
qed

text \<open>
  C2.  In the earlier file \<^verbatim>\<open>FulfillPromise\<close> and \<^verbatim>\<open>RejectPromise\<close> do not look at the
  state, and the one guard before them, the flag of the calling closure, is not shared
  between the two closures of a pair.  On the pending promise of \<^verbatim>\<open>Promise.deferred()\<close>:
  \<^verbatim>\<open>FulfillPromise(p, 1)\<close> followed by \<^verbatim>\<open>RejectPromise(p, 2)\<close> takes the state from
  fulfilled to rejected and the result from 1 to 2; and through the public functions,
  \<^verbatim>\<open>d.reject(2)\<close> followed by \<^verbatim>\<open>d.resolve(1)\<close> takes the state from rejected to fulfilled
  and the result from 2 to 1.
\<close>

theorem settled_state_changes_v1:
  "pvalue (PromiseState (heap (snd (FulfillPromise 0 (Number 1) deferred_st_v1)) 0)) = FULFILLED
   \<and> PromiseResult (heap (snd (FulfillPromise 0 (Number 1) deferred_st_v1)) 0) = Some (Number 1)
   \<and> pvalue (PromiseState (heap (snd (RejectPromise 0 (Number 2)
        (snd (FulfillPromise 0 (Number 1) deferred_st_v1)))) 0)) = REJECTED
   \<and> PromiseResult (heap (snd (RejectPromise 0 (Number 2)
        (snd (FulfillPromise 0 (Number 1) deferred_st_v1)))) 0) = Some (Number 2)
   \<and> pvalue (PromiseState (heap (snd (Call_v1 sample_host (Function (RejectFn 1)) Undefined
        [Number 2] deferred_st_v1)) 0)) = REJECTED
   \<and> PromiseResult (heap (snd (Call_v1 sample_host (Function (RejectFn 1)) Undefined
        [Number 2] deferred_st_v1)) 0) = Some (Number 2)
   \<and> pvalue (PromiseState (heap (snd (Call_v1 sample_host (Function (ResolveFn 0)) Undefined
        [Number 1] (snd (Call_v1 sample_host (Function (RejectFn 1)) Undefined
        [Number 2] deferred_st_v1)))) 0)) = FULFILLED
   \<and> PromiseResult (heap (snd (Call_v1 sample_host (Function (ResolveFn 0)) Undefined
        [Number 1] (snd (Call_v1 sample_host (Function (RejectFn 1)) Undefined
        [Number 2] deferred_st_v1)))) 0) = Some (Number 1)"
  by (simp add: getPromiseResolveFunctions_Function_def getPromiseRejectFunctions_Function_def
      FulfillPromise_def RejectPromise_def TriggerPromiseReactions_Some Put_def
      HostPromiseRejectionTracker_def console_log_def
      deferred_st_v1_facts arg_def isObject_def Let_def fresh_object_def)

section \<open>The reaction lists and the result at settlement\<close>

text \<open>
  In both files the constructor declares the two reaction lists without
  \<^verbatim>\<open>writable: true\<close>, so the assignments of \<^verbatim>\<open>undefined\<close> to them in the settle
  functions are ignored: on a promise object that the constructor made, a settlement
  leaves both lists exactly as they were.
\<close>

lemma reactions_survive_settlement:
  assumes "constructed (heap s p)"
  shows "PromiseFulfillReactions (heap (snd (fulfillPromise p v s)) p) = PromiseFulfillReactions (heap s p)"
    and "PromiseRejectReactions (heap (snd (fulfillPromise p v s)) p) = PromiseRejectReactions (heap s p)"
    and "PromiseFulfillReactions (heap (snd (rejectPromise p v s)) p) = PromiseFulfillReactions (heap s p)"
    and "PromiseRejectReactions (heap (snd (rejectPromise p v s)) p) = PromiseRejectReactions (heap s p)"
    and "PromiseFulfillReactions (heap (snd (FulfillPromise p v s)) p) = PromiseFulfillReactions (heap s p)"
    and "PromiseRejectReactions (heap (snd (FulfillPromise p v s)) p) = PromiseRejectReactions (heap s p)"
    and "PromiseFulfillReactions (heap (snd (RejectPromise p v s)) p) = PromiseFulfillReactions (heap s p)"
    and "PromiseRejectReactions (heap (snd (RejectPromise p v s)) p) = PromiseRejectReactions (heap s p)"
proof -
  obtain frs rrs where l: "pvalue (PromiseFulfillReactions (heap s p)) = Some frs"
      "pvalue (PromiseRejectReactions (heap s p)) = Some rrs"
    using constructed_reactions [OF assms] by blast
  show "PromiseFulfillReactions (heap (snd (fulfillPromise p v s)) p) = PromiseFulfillReactions (heap s p)"
    and "PromiseRejectReactions (heap (snd (fulfillPromise p v s)) p) = PromiseRejectReactions (heap s p)"
    by (cases "pvalue (PromiseState (heap s p)) = PENDING";
        simp add: fulfillPromise_pending [OF assms _ l(1)] settled_noop)+
  show "PromiseFulfillReactions (heap (snd (rejectPromise p v s)) p) = PromiseFulfillReactions (heap s p)"
    and "PromiseRejectReactions (heap (snd (rejectPromise p v s)) p) = PromiseRejectReactions (heap s p)"
    by (cases "pvalue (PromiseState (heap s p)) = PENDING";
        simp add: rejectPromise_pending [OF assms _ l(2)] settled_noop)+
  show "PromiseFulfillReactions (heap (snd (FulfillPromise p v s)) p) = PromiseFulfillReactions (heap s p)"
    and "PromiseRejectReactions (heap (snd (FulfillPromise p v s)) p) = PromiseRejectReactions (heap s p)"
    by (simp_all add: FulfillPromise_constructed [OF assms l(1)])
  show "PromiseFulfillReactions (heap (snd (RejectPromise p v s)) p) = PromiseFulfillReactions (heap s p)"
    and "PromiseRejectReactions (heap (snd (RejectPromise p v s)) p) = PromiseRejectReactions (heap s p)"
    by (simp_all add: RejectPromise_constructed [OF assms l(2)])
qed

text \<open>
  The later file: \<^verbatim>\<open>performPromiseThen\<close> appends to the lists only when the promise
  object is pending; on a settled one it leaves them as they are.
\<close>

lemma then_on_settled_keeps_reactions:
  assumes "pvalue (PromiseState (heap s p)) \<noteq> PENDING"
  shows "PromiseFulfillReactions (heap (snd (performPromiseThen p f r cap s)) p)
           = PromiseFulfillReactions (heap s p)
    \<and> PromiseRejectReactions (heap (snd (performPromiseThen p f r cap s)) p)
           = PromiseRejectReactions (heap s p)"
  using assms
  by (cases "pvalue (PromiseState (heap s p))")
    (simp_all add: performPromiseThen_def Let_def setImmediate_def)

text \<open>
  The later file: a promise object has no result when the constructor has made it, and
  the settle functions and \<^verbatim>\<open>performPromiseThen\<close> keep the result present exactly when
  the state is not pending.
\<close>

lemma result_matches_state_kept:
  "result_matches_state fresh_object"
  "constructed (heap s p) \<Longrightarrow> result_matches_state (heap s p) \<Longrightarrow>
     result_matches_state (heap (snd (fulfillPromise p v s)) p)"
  "constructed (heap s p) \<Longrightarrow> result_matches_state (heap s p) \<Longrightarrow>
     result_matches_state (heap (snd (rejectPromise p v s)) p)"
  "result_matches_state (heap s p) \<Longrightarrow>
     result_matches_state (heap (snd (performPromiseThen p f r cap s)) p)"
proof -
  show "result_matches_state fresh_object"
    by (simp add: result_matches_state_def fresh_object_def)
  show "constructed (heap s p) \<Longrightarrow> result_matches_state (heap s p) \<Longrightarrow>
     result_matches_state (heap (snd (fulfillPromise p v s)) p)"
    by (auto simp: result_matches_state_def fulfillPromise_def Let_def Put_def constructed_def
        triggerPromiseReactions_Some)
  show "constructed (heap s p) \<Longrightarrow> result_matches_state (heap s p) \<Longrightarrow>
     result_matches_state (heap (snd (rejectPromise p v s)) p)"
    by (auto simp: result_matches_state_def rejectPromise_def Let_def Put_def constructed_def
        triggerPromiseReactions_Some)
  show "result_matches_state (heap s p) \<Longrightarrow>
     result_matches_state (heap (snd (performPromiseThen p f r cap s)) p)"
    by (cases "pvalue (PromiseState (heap s p))")
      (auto simp: result_matches_state_def performPromiseThen_def Let_def setImmediate_def
        split: option.splits)
qed

text \<open>
  C8.  After \<^verbatim>\<open>d = Promise.deferred(); d.promise.then(f0); d.resolve(5)\<close>, in the later
  file and in the earlier one, the promise is fulfilled with 5 and both of its reaction
  lists still hold the reaction registered by \<^verbatim>\<open>then\<close>: neither list has become
  \<^verbatim>\<open>undefined\<close> (\<open>None\<close>), although both settle functions assign \<^verbatim>\<open>undefined\<close> to them.
\<close>

theorem reaction_lists_not_discarded:
  "pvalue (PromiseState (heap (snd (Call sample_host (Function (ResolveFn 0)) Undefined [Number 5]
      (snd (Promise_then (PromiseObject 0) (Function (UserFn 0)) Undefined deferred_st)))) 0))
     = FULFILLED
   \<and> PromiseResult (heap (snd (Call sample_host (Function (ResolveFn 0)) Undefined [Number 5]
      (snd (Promise_then (PromiseObject 0) (Function (UserFn 0)) Undefined deferred_st)))) 0)
     = Some (Number 5)
   \<and> pvalue (PromiseFulfillReactions (heap (snd (Call sample_host (Function (ResolveFn 0)) Undefined
      [Number 5] (snd (Promise_then (PromiseObject 0) (Function (UserFn 0)) Undefined deferred_st)))) 0))
     = Some [\<lparr>capability = \<lparr>cap_promise = PromiseObject 1, cap_resolve = Function (ResolveFn 1),
                              cap_reject = Function (RejectFn 1)\<rparr>,
              rtype = FULFILL, handler = Function (UserFn 0)\<rparr>]
   \<and> pvalue (PromiseRejectReactions (heap (snd (Call sample_host (Function (ResolveFn 0)) Undefined
      [Number 5] (snd (Promise_then (PromiseObject 0) (Function (UserFn 0)) Undefined deferred_st)))) 0))
     = Some [\<lparr>capability = \<lparr>cap_promise = PromiseObject 1, cap_resolve = Function (ResolveFn 1),
                              cap_reject = Function (RejectFn 1)\<rparr>,
              rtype = REJECT, handler = Undefined\<rparr>]
   \<and> pvalue (PromiseState (heap (snd (Call_v1 sample_host (Function (ResolveFn 0)) Undefined [Number 5]
      (snd (Promise_then_v1 (PromiseObject 0) (Function (UserFn 0)) Undefined deferred_st_v1)))) 0))
     = FULFILLED
   \<and> PromiseResult (heap (snd (Call_v1 sample_host (Function (ResolveFn 0)) Undefined [Number 5]
      (snd (Promise_then_v1 (PromiseObject 0) (Function (UserFn 0)) Undefined deferred_st_v1)))) 0)
     = Some (Number 5)
   \<and> pvalue (PromiseFulfillReactions (heap (snd (Call_v1 sample_host (Function (ResolveFn 0)) Undefined
      [Number 5] (snd (Promise_then_v1 (PromiseObject 0) (Function (UserFn 0)) Undefined deferred_st_v1)))) 0))
     = Some [\<lparr>capability = \<lparr>cap_promise = PromiseObject 1, cap_resolve = Function (ResolveFn 2),
                              cap_reject = Function (RejectFn 3)\<rparr>,
              rtype = FULFILL, handler = Function (UserFn 0)\<rparr>]
   \<and> pvalue (PromiseRejectReactions (heap (snd (Call_v1 sample_host (Function (ResolveFn 0)) Undefined
      [Number 5] (snd (Promise_then_v1 (PromiseObject 0) (Function (UserFn 0)) Undefined deferred_st_v1)))) 0))
     = Some [\<lparr>capability = \<lparr>cap_promise = PromiseObject 1, cap_resolve = Function (ResolveFn 2),
                              cap_reject = Function (RejectFn 3)\<rparr>,
              rtype = REJECT, handler = Undefined\<rparr>]"
  by (simp add: Promise_then_def Promise_then_v1_def newPromiseCapability_eq NewPromiseCapability_eq
      performPromiseThen_def PerformPromiseThen_def console_log_def
      deferred_st_def deferred_st_v1_def Promise_deferred_def Promise_deferred_v1_def
      empty_st_def fresh_object_def
      createResolvingFunctions_resolve_def getPromiseResolveFunctions_Function_def
      fulfillPromise_def FulfillPromise_def triggerPromiseReactions_Some TriggerPromiseReactions_Some
      Put_def arg_def isObject_def isFunction_def Let_def)

section \<open>The static \<^verbatim>\<open>resolve\<close>\<close>

text \<open>
  The later file.  \<^verbatim>\<open>Promise.resolve(x)\<close> returns the new promise; when \<open>x\<close> is
  \<^verbatim>\<open>null\<close>, a primitive, or an object or function whose \<^verbatim>\<open>then\<close> is not callable, the
  promise is fulfilled with \<open>x\<close> when the call returns and nothing has been queued.
\<close>

lemma Promise_resolve_nonthenable:
  assumes "nonthenable H x"
  shows "fst (Promise_resolve H x s) = Return (PromiseObject (nextPromise s))"
    and "pvalue (PromiseState (heap (snd (Promise_resolve H x s)) (nextPromise s))) = FULFILLED"
    and "PromiseResult (heap (snd (Promise_resolve H x s)) (nextPromise s)) = Some x"
    and "queue (snd (Promise_resolve H x s)) = queue s"
proof -
  let ?s1 = "snd (newPromiseCapability s)"
  have r: "createResolvingFunctions_resolve H (nextEnv s) x ?s1 =
     (Return Undefined,
      ?s1\<lparr>envs := (envs ?s1)(nextEnv s := (envs ?s1 (nextEnv s))\<lparr>alreadySettled := True\<rparr>),
        heap := (heap ?s1)(nextPromise s := (heap ?s1 (nextPromise s))
            \<lparr>PromiseResult := Some x,
             PromiseState := (PromiseState (heap ?s1 (nextPromise s)))\<lparr>pvalue := FULFILLED\<rparr>\<rparr>),
        queue := queue ?s1 @ map (\<lambda>r. ReactionJob r x) []\<rparr>)"
    by (rule resolve_nonthenable_fulfils)
      (simp_all add: newPromiseCapability_eq constructed_fresh_object assms, simp_all add: fresh_object_def)
  show "fst (Promise_resolve H x s) = Return (PromiseObject (nextPromise s))"
    and "pvalue (PromiseState (heap (snd (Promise_resolve H x s)) (nextPromise s))) = FULFILLED"
    and "PromiseResult (heap (snd (Promise_resolve H x s)) (nextPromise s)) = Some x"
    and "queue (snd (Promise_resolve H x s)) = queue s"
    using r by (simp_all add: Promise_resolve_def newPromiseCapability_eq arg_def)
qed

text \<open>
  The later file.  When \<open>x\<close> is an object or function whose \<^verbatim>\<open>then\<close> is callable (and
  \<open>x\<close> is a value that exists before the call, so not the promise about to be made), the
  promise is still pending when \<^verbatim>\<open>Promise.resolve(x)\<close> returns, and the one job added to
  the queue is the one that will call \<^verbatim>\<open>x.then\<close>.
\<close>

lemma Promise_resolve_thenable:
  assumes "thenable H x" "x \<noteq> PromiseObject (nextPromise s)" "Get_then H x = Return t"
  shows "fst (Promise_resolve H x s) = Return (PromiseObject (nextPromise s))"
    and "pvalue (PromiseState (heap (snd (Promise_resolve H x s)) (nextPromise s))) = PENDING"
    and "PromiseResult (heap (snd (Promise_resolve H x s)) (nextPromise s)) = None"
    and "queue (snd (Promise_resolve H x s)) = queue s @ [ResolveThenableJob (nextPromise s) x t]"
  using assms
  by (auto simp: Promise_resolve_def newPromiseCapability_eq arg_def thenable_def
      createResolvingFunctions_resolve_def Let_def setImmediate_def fresh_object_def)

text \<open>
  C10.  In the earlier file \<^verbatim>\<open>Promise.resolve(null)\<close> throws a TypeError instead of
  returning a fulfilled promise, the promise it has made staying pending; and for the
  caller's function 3, whose \<^verbatim>\<open>then\<close> is callable, \<^verbatim>\<open>Promise.resolve\<close> returns a promise
  that is already fulfilled with that function, since only values whose \<^verbatim>\<open>typeof\<close> is
  \<^verbatim>\<open>'object'\<close> are examined for a \<^verbatim>\<open>then\<close>.
\<close>

theorem static_resolve_v1_null_and_function:
  "fst (Promise_resolve_v1 sample_host Null empty_st)
     = Throw (TypeError ''Cannot read properties of null'')
   \<and> pvalue (PromiseState (heap (snd (Promise_resolve_v1 sample_host Null empty_st)) 0)) = PENDING
   \<and> thenable sample_host (Function (UserFn 3))
   \<and> fst (Promise_resolve_v1 sample_host (Function (UserFn 3)) empty_st) = Return (PromiseObject 0)
   \<and> pvalue (PromiseState (heap (snd (Promise_resolve_v1 sample_host (Function (UserFn 3))
        empty_st)) 0)) = FULFILLED
   \<and> PromiseResult (heap (snd (Promise_resolve_v1 sample_host (Function (UserFn 3))
        empty_st)) 0) = Some (Function (UserFn 3))
   \<and> queue (snd (Promise_resolve_v1 sample_host (Function (UserFn 3)) empty_st)) = []"
  by (simp add: Promise_resolve_v1_def NewPromiseCapability_eq empty_st_def fresh_object_def
      getPromiseResolveFunctions_Function_def FulfillPromise_def TriggerPromiseReactions_Some
      Put_def arg_def isObject_def isFunction_def Let_def thenable_def sample_host_def
      sample_then_def)

section \<open>The reaction job\<close>

text \<open>
  The later file: on a promise object that the constructor made, the resolve closure
  always returns normally.
\<close>

lemma fulfillPromise_returns:
  "constructed (heap s p) \<Longrightarrow> fst (fulfillPromise p v s) = Return Undefined"
  by (auto simp: fulfillPromise_def constructed_def Let_def triggerPromiseReactions_Some)

lemma rejectPromise_returns:
  "constructed (heap s p) \<Longrightarrow> fst (rejectPromise p v s) = Return Undefined"
  by (auto simp: rejectPromise_def constructed_def Let_def triggerPromiseReactions_Some)

lemma resolve_returns:
  assumes "constructed (heap s (env_promise (envs s c)))"
  shows "fst (createResolvingFunctions_resolve H c v s) = Return Undefined"
proof -
  let ?p = "env_promise (envs s c)"
  let ?s1 = "s\<lparr>envs := (envs s)(c := (envs s c)\<lparr>alreadySettled := True\<rparr>)\<rparr>"
  have c1: "constructed (heap ?s1 ?p)" using assms by simp
  have f: "\<And>x. fst (fulfillPromise ?p x ?s1) = Return Undefined"
    by (rule fulfillPromise_returns [OF c1])
  have r: "\<And>x. fst (rejectPromise ?p x ?s1) = Return Undefined"
    by (rule rejectPromise_returns [OF c1])
  have g: "\<And>x y t. fulfillPromise ?p x ?s1 \<noteq> (Throw y, t)"
    using f by (metis completion.distinct(1) fst_conv)
  have h: "\<And>x y t. fulfillPromise ?p x ?s1 = (Return y, t) \<Longrightarrow> y = Undefined"
    using f by (metis completion.inject(1) fst_conv)
  show ?thesis
    using f r g
    by (auto simp: createResolvingFunctions_resolve_def Let_def
        split: completion.splits prod.splits dest: h)
qed

lemma reject_returns:
  assumes "constructed (heap s (env_promise (envs s c)))"
  shows "fst (createResolvingFunctions_reject c v s) = Return Undefined"
  using assms rejectPromise_returns [of "s\<lparr>envs := (envs s)(c := (envs s c)\<lparr>alreadySettled := True\<rparr>)\<rparr>"
      "env_promise (envs s c)" v]
  by (simp add: createResolvingFunctions_reject_def Let_def)

text \<open>
  The later file, for a reaction whose capability is a real one (a promise object that
  the constructor made, with the two closures over one environment \<open>c\<close>): when the
  handler returns \<open>v\<close>, the job is the call of the resolve closure with \<open>v\<close>, and it
  returns normally; so when \<open>v\<close> is not a thenable and the downstream promise is pending
  with its pair unused, the downstream promise is fulfilled with \<open>v\<close>, whatever the type
  of the reaction.
\<close>

lemma reaction_job_handler_returns:
  assumes "isCallable (handler r)"
    "Call H (handler r) Undefined [a] s = (Return v, s1)"
    "cap_resolve (capability r) = Function (ResolveFn c)"
    "constructed (heap s1 (env_promise (envs s1 c)))"
  shows "promiseReactionJob H r a s
           = (Return Undefined, snd (createResolvingFunctions_resolve H c v s1))"
proof -
  have t: "truthy (handler r)" using assms(1) by (cases "handler r") simp_all
  have "fst (createResolvingFunctions_resolve H c v s1) = Return Undefined"
    by (rule resolve_returns [OF assms(4)])
  then obtain s2 where "createResolvingFunctions_resolve H c v s1 = (Return Undefined, s2)"
    by (metis prod.collapse)
  then show ?thesis
    using t assms(2,3) by (simp add: promiseReactionJob_def arg_def)
qed

lemma reaction_job_converts_to_fulfilled:
  assumes "isCallable (handler r)"
    "Call H (handler r) Undefined [a] s = (Return v, s1)"
    "cap_resolve (capability r) = Function (ResolveFn c)"
    "env_promise (envs s1 c) = q" "\<not> alreadySettled (envs s1 c)"
    "constructed (heap s1 q)" "pvalue (PromiseState (heap s1 q)) = PENDING"
    "nonthenable H v"
  shows "pvalue (PromiseState (heap (snd (promiseReactionJob H r a s)) q)) = FULFILLED
    \<and> PromiseResult (heap (snd (promiseReactionJob H r a s)) q) = Some v"
proof -
  obtain frs where l: "pvalue (PromiseFulfillReactions (heap s1 q)) = Some frs"
    using constructed_reactions [OF assms(6)] by blast
  have c: "constructed (heap s1 (env_promise (envs s1 c)))" using assms(4,6) by simp
  show ?thesis
    by (simp add: reaction_job_handler_returns [OF assms(1,2,3) c]
        resolve_nonthenable_fulfils [OF assms(6,7,4,5,8) l])
qed

lemma reaction_job_converts_to_rejected:
  assumes "isCallable (handler r)"
    "Call H (handler r) Undefined [a] s = (Throw e, s1)"
    "cap_reject (capability r) = Function (RejectFn c)"
    "env_promise (envs s1 c) = q" "\<not> alreadySettled (envs s1 c)"
    "constructed (heap s1 q)" "pvalue (PromiseState (heap s1 q)) = PENDING"
  shows "pvalue (PromiseState (heap (snd (promiseReactionJob H r a s)) q)) = REJECTED
    \<and> PromiseResult (heap (snd (promiseReactionJob H r a s)) q) = Some e"
proof -
  obtain rrs where l: "pvalue (PromiseRejectReactions (heap s1 q)) = Some rrs"
    using constructed_reactions [OF assms(6)] by blast
  let ?s2 = "s1\<lparr>envs := (envs s1)(c := (envs s1 c)\<lparr>alreadySettled := True\<rparr>)\<rparr>"
  have t: "truthy (handler r)" using assms(1) by (cases "handler r") simp_all
  have "rejectPromise q e ?s2 = (Return Undefined,
      ?s2\<lparr>heap := (heap ?s2)(q := (heap ?s2 q)
            \<lparr>PromiseResult := Some e,
             PromiseState := (PromiseState (heap ?s2 q))\<lparr>pvalue := REJECTED\<rparr>\<rparr>),
        queue := queue ?s2 @ map (\<lambda>r. ReactionJob r e) rrs\<rparr>)"
    by (rule rejectPromise_pending) (use assms l in simp_all)
  then show ?thesis
    using t assms(2-5)
    by (simp add: promiseReactionJob_def arg_def createResolvingFunctions_reject_def Let_def)
qed

text \<open>
  What the reaction job calls, in both files.  With no handler (\<^verbatim>\<open>undefined\<close>), it is
  the call of the capability's resolve with the argument for a reaction of type Fulfill,
  and of the capability's reject with the argument for one of type Reject.  With a
  handler, the handler is called with the argument; when it returns \<open>v\<close>, the
  capability's resolve is called with \<open>v\<close> (both calls stand in one \<^verbatim>\<open>try\<close>, so an
  error thrown by that resolve goes to the capability's reject); when it throws \<open>e\<close>,
  the capability's reject is called with \<open>e\<close>.
\<close>

lemma reaction_job_dispatch:
  "(handler r = Undefined \<and> rtype r = FULFILL \<longrightarrow>
      promiseReactionJob H r a s = Call H (cap_resolve (capability r)) Undefined [a] s
      \<and> PromiseReactionJob H r a s = Call_v1 H (cap_resolve (capability r)) Undefined [a] s)
   \<and> (handler r = Undefined \<and> rtype r = REJECT \<longrightarrow>
      promiseReactionJob H r a s = Call H (cap_reject (capability r)) Undefined [a] s
      \<and> PromiseReactionJob H r a s = Call_v1 H (cap_reject (capability r)) Undefined [a] s)
   \<and> (isCallable (handler r) \<and> Call H (handler r) Undefined [a] s = (Return v, s1) \<longrightarrow>
      promiseReactionJob H r a s =
        (case Call H (cap_resolve (capability r)) Undefined [v] s1 of
           (Throw error, s2) \<Rightarrow> Call H (cap_reject (capability r)) Undefined [error] s2
         | (Return x, s2) \<Rightarrow> (Return Undefined, s2)))
   \<and> (isCallable (handler r) \<and> Call H (handler r) Undefined [a] s = (Throw e, s1) \<longrightarrow>
      promiseReactionJob H r a s = Call H (cap_reject (capability r)) Undefined [e] s1)
   \<and> (isCallable (handler r) \<and> Call_v1 H (handler r) Undefined [a] s = (Return v, t1) \<longrightarrow>
      PromiseReactionJob H r a s =
        (case Call_v1 H (cap_resolve (capability r)) Undefined [v] t1 of
           (Throw error, t2) \<Rightarrow> Call_v1 H (cap_reject (capability r)) Undefined [error] t2
         | (Return x, t2) \<Rightarrow> (Return Undefined, t2)))
   \<and> (isCallable (handler r) \<and> Call_v1 H (handler r) Undefined [a] s = (Throw e, t1) \<longrightarrow>
      PromiseReactionJob H r a s = Call_v1 H (cap_reject (capability r)) Undefined [e] t1)"
proof -
  have t: "isCallable (handler r) \<Longrightarrow> truthy (handler r) \<and> handler r \<noteq> Undefined"
    by (cases "handler r") simp_all
  show ?thesis
    using t by (auto simp: promiseReactionJob_def PromiseReactionJob_def)
qed

text \<open>
  The later file, with no handler: the argument goes through to the downstream promise
  unchanged (when it is not a thenable, for a reaction of type Fulfill).
\<close>

lemma reaction_job_passes_through:
  assumes "handler r = Undefined"
    "cap_resolve (capability r) = Function (ResolveFn c)"
    "cap_reject (capability r) = Function (RejectFn c)"
    "env_promise (envs s c) = q" "\<not> alreadySettled (envs s c)"
    "constructed (heap s q)" "pvalue (PromiseState (heap s q)) = PENDING"
  shows "rtype r = FULFILL \<Longrightarrow> nonthenable H a \<Longrightarrow>
           pvalue (PromiseState (heap (snd (promiseReactionJob H r a s)) q)) = FULFILLED
           \<and> PromiseResult (heap (snd (promiseReactionJob H r a s)) q) = Some a"
    and "rtype r = REJECT \<Longrightarrow>
           pvalue (PromiseState (heap (snd (promiseReactionJob H r a s)) q)) = REJECTED
           \<and> PromiseResult (heap (snd (promiseReactionJob H r a s)) q) = Some a"
proof -
  obtain frs rrs where l: "pvalue (PromiseFulfillReactions (heap s q)) = Some frs"
      "pvalue (PromiseRejectReactions (heap s q)) = Some rrs"
    using constructed_reactions [OF assms(6)] by blast
  show "rtype r = FULFILL \<Longrightarrow> nonthenable H a \<Longrightarrow>
           pvalue (PromiseState (heap (snd (promiseReactionJob H r a s)) q)) = FULFILLED
           \<and> PromiseResult (heap (snd (promiseReactionJob H r a s)) q) = Some a"
    using assms(1,2)
    by (simp add: promiseReactionJob_def arg_def
        resolve_nonthenable_fulfils [OF assms(6,7,4,5) _ l(1)])
  let ?s1 = "s\<lparr>envs := (envs s)(c := (envs s c)\<lparr>alreadySettled := True\<rparr>)\<rparr>"
  have "rejectPromise q a ?s1 = (Return Undefined,
      ?s1\<lparr>heap := (heap ?s1)(q := (heap ?s1 q)
            \<lparr>PromiseResult := Some a,
             PromiseState := (PromiseState (heap ?s1 q))\<lparr>pvalue := REJECTED\<rparr>\<rparr>),
        queue := queue ?s1 @ map (\<lambda>r. ReactionJob r a) rrs\<rparr>)"
    by (rule rejectPromise_pending) (use assms l in simp_all)
  then show "rtype r = REJECT \<Longrightarrow>
           pvalue (PromiseState (heap (snd (promiseReactionJob H r a s)) q)) = REJECTED
           \<and> PromiseResult (heap (snd (promiseReactionJob H r a s)) q) = Some a"
    using assms(1,3,4,5)
    by (simp add: promiseReactionJob_def arg_def createResolvingFunctions_reject_def Let_def)
qed

text \<open>
  The sample caller on the capability of \<^verbatim>\<open>Promise.deferred()\<close>, in both files: a
  rejection handler that returns 2 leaves the downstream promise fulfilled with 2, a
  handler that throws 1 leaves it rejected with 1, and without a handler the argument
  goes through.
\<close>

lemma reaction_job_examples:
  "Call sample_host (Function (UserFn 0)) Undefined [Number 1] deferred_st
     = (Return (Number 2), deferred_st)
   \<and> pvalue (PromiseState (heap (snd (promiseReactionJob sample_host
        \<lparr>capability = deferred_cap, rtype = REJECT, handler = Function (UserFn 0)\<rparr>
        (Number 1) deferred_st)) 0)) = FULFILLED
   \<and> PromiseResult (heap (snd (promiseReactionJob sample_host
        \<lparr>capability = deferred_cap, rtype = REJECT, handler = Function (UserFn 0)\<rparr>
        (Number 1) deferred_st)) 0) = Some (Number 2)
   \<and> Call sample_host (Function (UserFn 1)) Undefined [Number 1] deferred_st
     = (Throw (Number 1), deferred_st)
   \<and> pvalue (PromiseState (heap (snd (promiseReactionJob sample_host
        \<lparr>capability = deferred_cap, rtype = FULFILL, handler = Function (UserFn 1)\<rparr>
        (Number 1) deferred_st)) 0)) = REJECTED
   \<and> PromiseResult (heap (snd (promiseReactionJob sample_host
        \<lparr>capability = deferred_cap, rtype = FULFILL, handler = Function (UserFn 1)\<rparr>
        (Number 1) deferred_st)) 0) = Some (Number 1)
   \<and> pvalue (PromiseState (heap (snd (promiseReactionJob sample_host
        \<lparr>capability = deferred_cap, rtype = FULFILL, handler = Undefined\<rparr>
        (Number 1) deferred_st)) 0)) = FULFILLED
   \<and> pvalue (PromiseState (heap (snd (PromiseReactionJob sample_host
        \<lparr>capability = deferred_cap_v1, rtype = REJECT, handler = Undefined\<rparr>
        (Number 1) deferred_st_v1)) 0)) = REJECTED
   \<and> pvalue (PromiseState (heap (snd (PromiseReactionJob sample_host
        \<lparr>capability = deferred_cap_v1, rtype = REJECT, handler = Function (UserFn 0)\<rparr>
        (Number 1) deferred_st_v1)) 0)) = FULFILLED
   \<and> PromiseResult (heap (snd (PromiseReactionJob sample_host
        \<lparr>capability = deferred_cap_v1, rtype = REJECT, handler = Function (UserFn 0)\<rparr>
        (Number 1) deferred_st_v1)) 0) = Some (Number 2)
   \<and> pvalue (PromiseState (heap (snd (PromiseReactionJob sample_host
        \<lparr>capability = deferred_cap_v1, rtype = FULFILL, handler = Function (UserFn 1)\<rparr>
        (Number 1) deferred_st_v1)) 0)) = REJECTED
   \<and> PromiseResult (heap (snd (PromiseReactionJob sample_host
        \<lparr>capability = deferred_cap_v1, rtype = FULFILL, handler = Function (UserFn 1)\<rparr>
        (Number 1) deferred_st_v1)) 0) = Some (Number 1)"
proof -
  let ?ret = "\<lparr>capability = deferred_cap, rtype = REJECT, handler = Function (UserFn 0)\<rparr>"
  let ?thr = "\<lparr>capability = deferred_cap, rtype = FULFILL, handler = Function (UserFn 1)\<rparr>"
  let ?non = "\<lparr>capability = deferred_cap, rtype = FULFILL, handler = Undefined\<rparr>"
  let ?non1 = "\<lparr>capability = deferred_cap_v1, rtype = REJECT, handler = Undefined\<rparr>"
  let ?ret1 = "\<lparr>capability = deferred_cap_v1, rtype = REJECT, handler = Function (UserFn 0)\<rparr>"
  let ?thr1 = "\<lparr>capability = deferred_cap_v1, rtype = FULFILL, handler = Function (UserFn 1)\<rparr>"
  have c0: "Call sample_host (Function (UserFn 0)) Undefined [Number 1] deferred_st
              = (Return (Number 2), deferred_st)"
    and c1: "Call sample_host (Function (UserFn 1)) Undefined [Number 1] deferred_st
              = (Throw (Number 1), deferred_st)"
    and d0: "Call_v1 sample_host (Function (UserFn 0)) Undefined [Number 1] deferred_st_v1
              = (Return (Number 2), deferred_st_v1)"
    and d1: "Call_v1 sample_host (Function (UserFn 1)) Undefined [Number 1] deferred_st_v1
              = (Throw (Number 1), deferred_st_v1)"
    by (simp_all add: sample_host_def sample_call_def arg_def)
  have a: "promiseReactionJob sample_host ?ret (Number 1) deferred_st =
        (case Call sample_host (cap_resolve (capability ?ret)) Undefined [Number 2] deferred_st of
           (Throw error, s2) \<Rightarrow> Call sample_host (cap_reject (capability ?ret)) Undefined [error] s2
         | (Return x, s2) \<Rightarrow> (Return Undefined, s2))"
    using reaction_job_dispatch [where r = "?ret" and H = sample_host and a = "Number 1"
        and s = deferred_st and v = "Number 2" and ?s1.0 = deferred_st] c0
    by simp
  have b: "promiseReactionJob sample_host ?thr (Number 1) deferred_st =
        Call sample_host (cap_reject (capability ?thr)) Undefined [Number 1] deferred_st"
    using reaction_job_dispatch [where r = "?thr" and H = sample_host and a = "Number 1"
        and s = deferred_st and e = "Number 1" and ?s1.0 = deferred_st] c1
    by simp
  have c: "promiseReactionJob sample_host ?non (Number 1) deferred_st =
        Call sample_host (cap_resolve (capability ?non)) Undefined [Number 1] deferred_st"
    using reaction_job_dispatch [where r = "?non" and H = sample_host and a = "Number 1"
        and s = deferred_st]
    by simp
  have d: "PromiseReactionJob sample_host ?non1 (Number 1) deferred_st_v1 =
        Call_v1 sample_host (cap_reject (capability ?non1)) Undefined [Number 1] deferred_st_v1"
    using reaction_job_dispatch [where r = "?non1" and H = sample_host and a = "Number 1"
        and s = deferred_st_v1]
    by simp
  have e: "PromiseReactionJob sample_host ?ret1 (Number 1) deferred_st_v1 =
        (case Call_v1 sample_host (cap_resolve (capability ?ret1)) Undefined [Number 2] deferred_st_v1 of
           (Throw error, s2) \<Rightarrow> Call_v1 sample_host (cap_reject (capability ?ret1)) Undefined [error] s2
         | (Return x, s2) \<Rightarrow> (Return Undefined, s2))"
    using reaction_job_dispatch [where r = "?ret1" and H = sample_host and a = "Number 1"
        and s = deferred_st_v1 and v = "Number 2" and ?t1.0 = deferred_st_v1] d0
    by simp
  have f: "PromiseReactionJob sample_host ?thr1 (Number 1) deferred_st_v1 =
        Call_v1 sample_host (cap_reject (capability ?thr1)) Undefined [Number 1] deferred_st_v1"
    using reaction_job_dispatch [where r = "?thr1" and H = sample_host and a = "Number 1"
        and s = deferred_st_v1 and e = "Number 1" and ?t1.0 = deferred_st_v1] d1
    by simp
  show ?thesis
    unfolding a b c d e f
    using c0 c1
    by (simp add: createResolvingFunctions_resolve_def createResolvingFunctions_reject_def
        getPromiseResolveFunctions_Function_def getPromiseRejectFunctions_Function_def
        fulfillPromise_def rejectPromise_def FulfillPromise_def RejectPromise_def
        triggerPromiseReactions_Some TriggerPromiseReactions_Some Put_def
        HostPromiseRejectionTracker_def console_log_def
        deferred_st_facts deferred_st_v1_facts arg_def isObject_def isFunction_def Let_def
        fresh_object_def deferred_cap_def deferred_cap_v1_def)
qed

text \<open>
  C5.  In the earlier file the resolve closure throws when it is given \<^verbatim>\<open>null\<close> (or a
  value whose \<^verbatim>\<open>then\<close> throws when read), and the reaction job calls it inside the
  \<^verbatim>\<open>try\<close> it calls the handler in.  Function 4 of the sample caller returns
  \<^verbatim>\<open>null\<close>.  For the reaction that \<^verbatim>\<open>then(undefined, f4)\<close> registers on the capability
  of \<^verbatim>\<open>Promise.deferred()\<close>, run with the reason \<^verbatim>\<open>x\<close>: the handler returns normally,
  and the job of the earlier file leaves the downstream promise rejected with the TypeError
  of reading \<^verbatim>\<open>null.then\<close>, not fulfilled.  So does the whole chain
  \<^verbatim>\<open>Promise.reject('x').then(undefined, f4)\<close> once the loop has run its one callback.  The
  later file leaves the downstream promise fulfilled with \<^verbatim>\<open>null\<close> in both.
\<close>

theorem rejection_handler_returning_null_v1:
  "Call_v1 sample_host (Function (UserFn 4)) Undefined [Str ''x''] deferred_st_v1
     = (Return Null, deferred_st_v1)
   \<and> pvalue (PromiseState (heap (snd (PromiseReactionJob sample_host
        \<lparr>capability = deferred_cap_v1, rtype = REJECT, handler = Function (UserFn 4)\<rparr>
        (Str ''x'') deferred_st_v1)) 0)) = REJECTED
   \<and> PromiseResult (heap (snd (PromiseReactionJob sample_host
        \<lparr>capability = deferred_cap_v1, rtype = REJECT, handler = Function (UserFn 4)\<rparr>
        (Str ''x'') deferred_st_v1)) 0) = Some (TypeError ''Cannot read properties of null'')
   \<and> pvalue (PromiseState (heap (snd (promiseReactionJob sample_host
        \<lparr>capability = deferred_cap, rtype = REJECT, handler = Function (UserFn 4)\<rparr>
        (Str ''x'') deferred_st)) 0)) = FULFILLED
   \<and> PromiseResult (heap (snd (promiseReactionJob sample_host
        \<lparr>capability = deferred_cap, rtype = REJECT, handler = Function (UserFn 4)\<rparr>
        (Str ''x'') deferred_st)) 0) = Some Null
   \<and> fst (runLoop_v1 sample_host (Suc 0) rejected_then_v1)
       = [ReactionJob \<lparr>capability = \<lparr>cap_promise = PromiseObject 1,
                                        cap_resolve = Function (ResolveFn 2),
                                        cap_reject = Function (RejectFn 3)\<rparr>,
                        rtype = REJECT, handler = Function (UserFn 4)\<rparr> (Str ''x'')]
   \<and> pvalue (PromiseState (heap (snd (runLoop_v1 sample_host (Suc 0) rejected_then_v1)) 1))
       = REJECTED
   \<and> PromiseResult (heap (snd (runLoop_v1 sample_host (Suc 0) rejected_then_v1)) 1)
       = Some (TypeError ''Cannot read properties of null'')
   \<and> pvalue (PromiseState (heap (snd (runLoop sample_host (Suc 0) rejected_then)) 1))
       = FULFILLED
   \<and> PromiseResult (heap (snd (runLoop sample_host (Suc 0) rejected_then)) 1) = Some Null"
  by (simp add: rejected_then_v1_def rejected_then_def
      Promise_reject_v1_def Promise_reject_def Promise_then_v1_def Promise_then_def
      NewPromiseCapability_eq newPromiseCapability_eq
      PerformPromiseThen_def performPromiseThen_def
      PromiseReactionJob_def promiseReactionJob_def
      getPromiseResolveFunctions_Function_def getPromiseRejectFunctions_Function_def
      createResolvingFunctions_resolve_def createResolvingFunctions_reject_def
      FulfillPromise_def RejectPromise_def fulfillPromise_def rejectPromise_def
      TriggerPromiseReactions_Some triggerPromiseReactions_Some Put_def
      HostPromiseRejectionTracker_def console_log_def setImmediate_def
      deferred_st_facts deferred_st_v1_facts deferred_cap_def deferred_cap_v1_def
      sample_host_def sample_call_def empty_st_def fresh_object_def
      arg_def isObject_def isFunction_def Let_def)

section \<open>Registration order and deferral\<close>

subsection \<open>The library only adds to the end of the queue\<close>

lemma qe_refl: "queue_extends s s"
  by (simp add: queue_extends_def)

lemma qe_trans: "queue_extends s t \<Longrightarrow> queue_extends t u \<Longrightarrow> queue_extends s u"
  by (auto simp: queue_extends_def)

lemma qe_from: "queue s = queue s0 \<Longrightarrow> queue_extends s t \<Longrightarrow> queue_extends s0 t"
  by (simp add: queue_extends_def)

lemma qe_fulfillPromise: "queue_extends s (snd (fulfillPromise p v s))"
  by (auto simp: fulfillPromise_def Let_def triggerPromiseReactions_def fold_setImmediate
      queue_extends_def split: option.splits)

lemma qe_rejectPromise: "queue_extends s (snd (rejectPromise p v s))"
  by (auto simp: rejectPromise_def Let_def triggerPromiseReactions_def fold_setImmediate
      queue_extends_def split: option.splits)

lemma qe_FulfillPromise: "queue_extends s (snd (FulfillPromise p v s))"
  by (auto simp: FulfillPromise_def Let_def TriggerPromiseReactions_def fold_setImmediate
      queue_extends_def split: option.splits)

lemma qe_RejectPromise: "queue_extends s (snd (RejectPromise p v s))"
  by (auto simp: RejectPromise_def Let_def TriggerPromiseReactions_def fold_setImmediate
      HostPromiseRejectionTracker_def console_log_def queue_extends_def split: option.splits)

lemma qe_resolve: "queue_extends s (snd (createResolvingFunctions_resolve H c v s))"
proof (cases "alreadySettled (envs s c)")
  case True
  then show ?thesis by (simp add: used_pair_noop qe_refl)
next
  case False
  let ?s1 = "s\<lparr>envs := (envs s)(c := (envs s c)\<lparr>alreadySettled := True\<rparr>)\<rparr>"
  have q: "queue ?s1 = queue s" by simp
  have a: "\<And>q x. queue_extends s (snd (fulfillPromise q x ?s1))"
    by (rule qe_from [OF q qe_fulfillPromise])
  have b: "\<And>q x. queue_extends s (snd (rejectPromise q x ?s1))"
    by (rule qe_from [OF q qe_rejectPromise])
  have c: "\<And>q x y t. fulfillPromise q x ?s1 = (Throw y, t) \<Longrightarrow>
              queue_extends s (snd (rejectPromise q y t))"
  proof -
    fix q x y t
    assume "fulfillPromise q x ?s1 = (Throw y, t)"
    then have "t = snd (fulfillPromise q x ?s1)" by simp
    then have "queue_extends s t" using a by simp
    then show "queue_extends s (snd (rejectPromise q y t))"
      by (rule qe_trans [OF _ qe_rejectPromise])
  qed
  have d: "\<And>q x y t. fulfillPromise q x ?s1 = (Return y, t) \<Longrightarrow> queue_extends s t"
  proof -
    fix q x y t
    assume "fulfillPromise q x ?s1 = (Return y, t)"
    then have "t = snd (fulfillPromise q x ?s1)" by simp
    then show "queue_extends s t" using a by simp
  qed
  have e: "\<And>j. queue_extends s (setImmediate j ?s1)"
    by (simp add: setImmediate_def queue_extends_def)
  show ?thesis
    using False a b c d e
    by (auto simp: createResolvingFunctions_resolve_def Let_def
        split: completion.splits prod.splits)
qed

lemma qe_reject: "queue_extends s (snd (createResolvingFunctions_reject c v s))"
proof (cases "alreadySettled (envs s c)")
  case True
  then show ?thesis by (simp add: used_pair_noop qe_refl)
next
  case False
  let ?s1 = "s\<lparr>envs := (envs s)(c := (envs s c)\<lparr>alreadySettled := True\<rparr>)\<rparr>"
  have q: "queue ?s1 = queue s" by simp
  have "queue_extends s (snd (rejectPromise (env_promise (envs s c)) v ?s1))"
    by (rule qe_from [OF q qe_rejectPromise])
  then show ?thesis
    using False by (simp add: createResolvingFunctions_reject_def Let_def)
qed

lemma qe_resolve_v1: "queue_extends s (snd (getPromiseResolveFunctions_Function H c v s))"
proof (cases "alreadySettled (envs s c)")
  case True
  then show ?thesis by (simp add: getPromiseResolveFunctions_Function_def qe_refl)
next
  case False
  let ?s1 = "s\<lparr>envs := (envs s)(c := (envs s c)\<lparr>alreadySettled := True\<rparr>)\<rparr>"
  have q: "queue ?s1 = queue s" by simp
  have a: "\<And>q x. queue_extends s (snd (FulfillPromise q x ?s1))"
    by (rule qe_from [OF q qe_FulfillPromise])
  have b: "\<And>q x. queue_extends s (snd (RejectPromise q x ?s1))"
    by (rule qe_from [OF q qe_RejectPromise])
  have e: "\<And>j. queue_extends s (setImmediate j ?s1)"
    by (simp add: setImmediate_def queue_extends_def)
  have f: "queue_extends s ?s1"
    by (simp add: queue_extends_def)
  show ?thesis
    using False a b e f
    by (auto simp: getPromiseResolveFunctions_Function_def Let_def
        split: completion.splits prod.splits)
qed

lemma qe_reject_v1: "queue_extends s (snd (getPromiseRejectFunctions_Function c v s))"
proof (cases "alreadySettled (envs s c)")
  case True
  then show ?thesis by (simp add: getPromiseRejectFunctions_Function_def qe_refl)
next
  case False
  let ?s1 = "s\<lparr>envs := (envs s)(c := (envs s c)\<lparr>alreadySettled := True\<rparr>)\<rparr>"
  have q: "queue ?s1 = queue s" by simp
  have "queue_extends s (snd (RejectPromise (env_promise (envs s c)) v ?s1))"
    by (rule qe_from [OF q qe_RejectPromise])
  then show ?thesis
    using False by (simp add: getPromiseRejectFunctions_Function_def Let_def)
qed

lemma qe_performPromiseThen: "queue_extends s (snd (performPromiseThen p f r cap s))"
  by (cases "pvalue (PromiseState (heap s p))")
    (auto simp: performPromiseThen_def Let_def setImmediate_def queue_extends_def
      split: option.splits)

lemma qe_PerformPromiseThen: "queue_extends s (snd (PerformPromiseThen p f r cap s))"
  by (cases "pvalue (PromiseState (heap s p))")
    (auto simp: PerformPromiseThen_def Let_def setImmediate_def queue_extends_def
      console_log_def HostPromiseRejectionTracker_def split: option.splits)

lemma qe_Promise_then: "queue_extends s (snd (Promise_then this f r s))"
proof (cases this)
  case (PromiseObject p)
  have q: "queue (snd (newPromiseCapability s)) = queue s"
    by (simp add: newPromiseCapability_eq)
  show ?thesis
    using qe_from [OF q qe_performPromiseThen]
    by (simp add: Promise_then_def PromiseObject newPromiseCapability_eq)
qed (simp_all add: Promise_then_def qe_refl)

lemma qe_Promise_then_v1: "queue_extends s (snd (Promise_then_v1 this f r s))"
proof (cases this)
  case (PromiseObject p)
  have q: "queue (snd (NewPromiseCapability s)) = queue s"
    by (simp add: NewPromiseCapability_eq)
  show ?thesis
    using qe_from [OF q qe_PerformPromiseThen]
    by (simp add: Promise_then_v1_def PromiseObject NewPromiseCapability_eq)
qed (simp_all add: Promise_then_v1_def qe_refl)

lemma qe_Call:
  assumes "appends_only H"
  shows "queue_extends s (snd (Call H f this args s))"
proof (cases "(H, f, this, args, s)" rule: Call.cases)
  case (4 H' i this' args' s')
  then show ?thesis using assms by (simp add: appends_only_def)
qed (simp_all add: qe_resolve qe_reject qe_Promise_then qe_refl)

lemma qe_Call_v1:
  assumes "appends_only H"
  shows "queue_extends s (snd (Call_v1 H f this args s))"
proof (cases "(H, f, this, args, s)" rule: Call_v1.cases)
  case (4 H' i this' args' s')
  then show ?thesis using assms by (simp add: appends_only_def)
qed (simp_all add: qe_resolve_v1 qe_reject_v1 qe_Promise_then_v1 qe_refl)

lemma qe_promiseReactionJob:
  assumes "appends_only H"
  shows "queue_extends s (snd (promiseReactionJob H r a s))"
proof (cases "truthy (handler r)")
  case False
  then show ?thesis
    by (cases "rtype r") (simp_all add: promiseReactionJob_def qe_Call [OF assms])
next
  case True
  obtain o1 s1 where c1: "Call H (handler r) Undefined [a] s = (o1, s1)"
    by (cases "Call H (handler r) Undefined [a] s")
  have e1: "queue_extends s s1"
    using qe_Call [OF assms, of s "handler r" Undefined "[a]"] c1 by simp
  show ?thesis
  proof (cases o1)
    case (Throw e)
    have "queue_extends s (snd (Call H (cap_reject (capability r)) Undefined [e] s1))"
      by (rule qe_trans [OF e1 qe_Call [OF assms]])
    then show ?thesis using True c1 Throw by (simp add: promiseReactionJob_def)
  next
    case (Return v)
    obtain o2 s2 where c2: "Call H (cap_resolve (capability r)) Undefined [v] s1 = (o2, s2)"
      by (cases "Call H (cap_resolve (capability r)) Undefined [v] s1")
    have e2: "queue_extends s s2"
      using qe_trans [OF e1 qe_Call [OF assms, of s1 "cap_resolve (capability r)" Undefined "[v]"]] c2
      by simp
    show ?thesis
    proof (cases o2)
      case (Throw e)
      have "queue_extends s (snd (Call H (cap_reject (capability r)) Undefined [e] s2))"
        by (rule qe_trans [OF e2 qe_Call [OF assms]])
      then show ?thesis using True c1 c2 Return Throw by (simp add: promiseReactionJob_def)
    next
      case (Return x)
      then show ?thesis using True c1 c2 \<open>o1 = Return v\<close> e2 by (simp add: promiseReactionJob_def)
    qed
  qed
qed

lemma qe_PromiseReactionJob:
  assumes "appends_only H"
  shows "queue_extends s (snd (PromiseReactionJob H r a s))"
proof (cases "handler r = Undefined")
  case True
  then show ?thesis
    by (cases "rtype r") (simp_all add: PromiseReactionJob_def qe_Call_v1 [OF assms])
next
  case False
  obtain o1 s1 where c1: "Call_v1 H (handler r) Undefined [a] s = (o1, s1)"
    by (cases "Call_v1 H (handler r) Undefined [a] s")
  have e1: "queue_extends s s1"
    using qe_Call_v1 [OF assms, of s "handler r" Undefined "[a]"] c1 by simp
  show ?thesis
  proof (cases o1)
    case (Throw e)
    have "queue_extends s (snd (Call_v1 H (cap_reject (capability r)) Undefined [e] s1))"
      by (rule qe_trans [OF e1 qe_Call_v1 [OF assms]])
    then show ?thesis using False c1 Throw by (simp add: PromiseReactionJob_def)
  next
    case (Return v)
    obtain o2 s2 where c2: "Call_v1 H (cap_resolve (capability r)) Undefined [v] s1 = (o2, s2)"
      by (cases "Call_v1 H (cap_resolve (capability r)) Undefined [v] s1")
    have e2: "queue_extends s s2"
      using qe_trans [OF e1 qe_Call_v1 [OF assms, of s1 "cap_resolve (capability r)" Undefined "[v]"]] c2
      by simp
    show ?thesis
    proof (cases o2)
      case (Throw e)
      have "queue_extends s (snd (Call_v1 H (cap_reject (capability r)) Undefined [e] s2))"
        by (rule qe_trans [OF e2 qe_Call_v1 [OF assms]])
      then show ?thesis using False c1 c2 Return Throw by (simp add: PromiseReactionJob_def)
    next
      case (Return x)
      then show ?thesis using False c1 c2 \<open>o1 = Return v\<close> e2 by (simp add: PromiseReactionJob_def)
    qed
  qed
qed

lemma qe_promiseResolveThenableJob:
  assumes "appends_only H"
  shows "queue_extends s (snd (promiseResolveThenableJob H p x t s))"
proof -
  let ?s1 = "snd (createResolvingFunctions p s)"
  let ?c = "nextEnv s"
  have q: "queue ?s1 = queue s" by (simp add: createResolvingFunctions_def)
  obtain o1 s2 where c1:
    "Call H t x [Function (ResolveFn ?c), Function (RejectFn ?c)] ?s1 = (o1, s2)"
    by (cases "Call H t x [Function (ResolveFn ?c), Function (RejectFn ?c)] ?s1")
  have e1: "queue_extends s s2"
    using qe_from [OF q qe_Call [OF assms, of ?s1 t x "[Function (ResolveFn ?c), Function (RejectFn ?c)]"]] c1
    by simp
  show ?thesis
  proof (cases o1)
    case (Throw e)
    have "queue_extends s (snd (createResolvingFunctions_reject ?c e s2))"
      by (rule qe_trans [OF e1 qe_reject])
    then show ?thesis
      using c1 Throw by (simp add: promiseResolveThenableJob_def createResolvingFunctions_def)
  next
    case (Return r)
    then show ?thesis
      using c1 e1 by (simp add: promiseResolveThenableJob_def createResolvingFunctions_def)
  qed
qed

lemma CreateResolvingFunctions_eq:
  "CreateResolvingFunctions p s =
     ((nextEnv s, Suc (nextEnv s)),
      s\<lparr>envs := (envs s)(nextEnv s := \<lparr>env_promise = p, alreadySettled = False\<rparr>,
                       Suc (nextEnv s) := \<lparr>env_promise = p, alreadySettled = False\<rparr>),
        nextEnv := Suc (Suc (nextEnv s))\<rparr>)"
  by (simp add: CreateResolvingFunctions_def getPromiseResolveFunctions_def
      getPromiseRejectFunctions_def setPromise_def setAlreadyResolved_def closure_env_all Let_def)

lemma qe_PromiseResolveThenableJob:
  assumes "appends_only H"
  shows "queue_extends s (snd (PromiseResolveThenableJob H p x t s))"
proof -
  let ?s1 = "snd (CreateResolvingFunctions p s)"
  let ?c1 = "nextEnv s"
  let ?c2 = "Suc (nextEnv s)"
  have q: "queue ?s1 = queue s" by (simp add: CreateResolvingFunctions_eq)
  obtain o1 s2 where c1:
    "Call_v1 H t x [Function (ResolveFn ?c1), Function (RejectFn ?c2)] ?s1 = (o1, s2)"
    by (cases "Call_v1 H t x [Function (ResolveFn ?c1), Function (RejectFn ?c2)] ?s1")
  have e1: "queue_extends s s2"
    using qe_from [OF q qe_Call_v1 [OF assms, of ?s1 t x "[Function (ResolveFn ?c1), Function (RejectFn ?c2)]"]] c1
    by simp
  show ?thesis
  proof (cases o1)
    case (Throw e)
    have "queue_extends s (snd (getPromiseRejectFunctions_Function ?c2 e s2))"
      by (rule qe_trans [OF e1 qe_reject_v1])
    then show ?thesis
      using c1 Throw by (simp add: PromiseResolveThenableJob_def CreateResolvingFunctions_eq)
  next
    case (Return r)
    then show ?thesis
      using c1 e1 by (simp add: PromiseResolveThenableJob_def CreateResolvingFunctions_eq)
  qed
qed

lemma qe_runJob:
  "appends_only H \<Longrightarrow> queue_extends s (snd (runJob H j s))"
  by (cases j) (simp_all add: qe_promiseReactionJob qe_promiseResolveThenableJob)

lemma qe_runJob_v1:
  "appends_only H \<Longrightarrow> queue_extends s (snd (runJob_v1 H j s))"
  by (cases j) (simp_all add: qe_PromiseReactionJob qe_PromiseResolveThenableJob)

subsection \<open>The loop runs the callbacks in the order of the queue\<close>

text \<open>
  However long the loop runs, the callbacks it has run, followed by the callbacks still
  waiting, are the queue it started from followed by the callbacks added since: so
  a callback is run only after every callback that stood before it in the queue.
\<close>

lemma runLoop_fifo:
  assumes "appends_only H"
  shows "\<exists>added. fst (runLoop H n s) @ queue (snd (runLoop H n s)) = queue s @ added"
proof (induction n arbitrary: s)
  case 0
  show ?case by simp
next
  case (Suc n)
  show ?case
  proof (cases "queue s")
    case Nil
    then show ?thesis by simp
  next
    case (Cons j js)
    obtain o1 s1 where r: "runJob H j (s\<lparr>queue := js\<rparr>) = (o1, s1)"
      by (cases "runJob H j (s\<lparr>queue := js\<rparr>)")
    have "queue_extends (s\<lparr>queue := js\<rparr>) s1"
      using qe_runJob [OF assms, of "s\<lparr>queue := js\<rparr>" j] r by simp
    then obtain a1 where a1: "queue s1 = js @ a1"
      by (auto simp: queue_extends_def)
    show ?thesis
    proof (cases o1)
      case (Throw e)
      then show ?thesis using Cons r a1 by simp
    next
      case (Return x)
      obtain a2 where "fst (runLoop H n s1) @ queue (snd (runLoop H n s1)) = queue s1 @ a2"
        using Suc.IH by blast
      then show ?thesis
        using Cons r a1 Return by (simp add: split_beta)
    qed
  qed
qed

lemma runLoop_v1_fifo:
  assumes "appends_only H"
  shows "\<exists>added. fst (runLoop_v1 H n s) @ queue (snd (runLoop_v1 H n s)) = queue s @ added"
proof (induction n arbitrary: s)
  case 0
  show ?case by simp
next
  case (Suc n)
  show ?case
  proof (cases "queue s")
    case Nil
    then show ?thesis by simp
  next
    case (Cons j js)
    obtain o1 s1 where r: "runJob_v1 H j (s\<lparr>queue := js\<rparr>) = (o1, s1)"
      by (cases "runJob_v1 H j (s\<lparr>queue := js\<rparr>)")
    have "queue_extends (s\<lparr>queue := js\<rparr>) s1"
      using qe_runJob_v1 [OF assms, of "s\<lparr>queue := js\<rparr>" j] r by simp
    then obtain a1 where a1: "queue s1 = js @ a1"
      by (auto simp: queue_extends_def)
    show ?thesis
    proof (cases o1)
      case (Throw e)
      then show ?thesis using Cons r a1 by simp
    next
      case (Return x)
      obtain a2 where "fst (runLoop_v1 H n s1) @ queue (snd (runLoop_v1 H n s1)) = queue s1 @ a2"
        using Suc.IH by blast
      then show ?thesis
        using Cons r a1 Return by (simp add: split_beta)
    qed
  qed
qed

subsection \<open>What \<^verbatim>\<open>then\<close> does\<close>

text \<open>
  \<^verbatim>\<open>then\<close> on a pending promise: the new promise is returned, the queue is as it was,
  and the new fulfil reaction stands at the end of the fulfil list.  \<open>Promise_then\<close> has
  no access to the caller's code (it takes no \<open>host\<close>), so it calls no handler.
\<close>

lemma Promise_then_pending:
  assumes "constructed (heap s p)" "pvalue (PromiseState (heap s p)) = PENDING"
    "p < nextPromise s" "pvalue (PromiseFulfillReactions (heap s p)) = Some frs"
  shows "fst (Promise_then (PromiseObject p) f r s) = Return (PromiseObject (nextPromise s))"
    and "queue (snd (Promise_then (PromiseObject p) f r s)) = queue s"
    and "pvalue (PromiseFulfillReactions (heap (snd (Promise_then (PromiseObject p) f r s)) p))
          = Some (frs @ [\<lparr>capability = next_capability s, rtype = FULFILL,
                           handler = (if isCallable f then f else Undefined)\<rparr>])"
    and "constructed (heap (snd (Promise_then (PromiseObject p) f r s)) p)"
    and "pvalue (PromiseState (heap (snd (Promise_then (PromiseObject p) f r s)) p)) = PENDING"
    and "nextPromise (snd (Promise_then (PromiseObject p) f r s)) = Suc (nextPromise s)"
proof -
  obtain rrs where l: "pvalue (PromiseRejectReactions (heap s p)) = Some rrs"
    using constructed_reactions [OF assms(1)] by blast
  show "fst (Promise_then (PromiseObject p) f r s) = Return (PromiseObject (nextPromise s))"
    and "queue (snd (Promise_then (PromiseObject p) f r s)) = queue s"
    and "pvalue (PromiseFulfillReactions (heap (snd (Promise_then (PromiseObject p) f r s)) p))
          = Some (frs @ [\<lparr>capability = next_capability s, rtype = FULFILL,
                           handler = (if isCallable f then f else Undefined)\<rparr>])"
    and "constructed (heap (snd (Promise_then (PromiseObject p) f r s)) p)"
    and "pvalue (PromiseState (heap (snd (Promise_then (PromiseObject p) f r s)) p)) = PENDING"
    and "nextPromise (snd (Promise_then (PromiseObject p) f r s)) = Suc (nextPromise s)"
    using assms l
    by (simp_all add: Promise_then_def newPromiseCapability_eq performPromiseThen_def Let_def
        next_capability_def constructed_def)
qed

lemma Promise_then_v1_pending:
  assumes "constructed (heap s p)" "pvalue (PromiseState (heap s p)) = PENDING"
    "p < nextPromise s" "pvalue (PromiseFulfillReactions (heap s p)) = Some frs"
  shows "fst (Promise_then_v1 (PromiseObject p) f r s) = Return (PromiseObject (nextPromise s))"
    and "queue (snd (Promise_then_v1 (PromiseObject p) f r s)) = queue s"
    and "pvalue (PromiseFulfillReactions (heap (snd (Promise_then_v1 (PromiseObject p) f r s)) p))
          = Some (frs @ [\<lparr>capability = next_capability_v1 s, rtype = FULFILL,
                           handler = (if isCallable f then f else Undefined)\<rparr>])"
    and "constructed (heap (snd (Promise_then_v1 (PromiseObject p) f r s)) p)"
    and "pvalue (PromiseState (heap (snd (Promise_then_v1 (PromiseObject p) f r s)) p)) = PENDING"
    and "nextPromise (snd (Promise_then_v1 (PromiseObject p) f r s)) = Suc (nextPromise s)"
proof -
  obtain rrs where l: "pvalue (PromiseRejectReactions (heap s p)) = Some rrs"
    using constructed_reactions [OF assms(1)] by blast
  show "fst (Promise_then_v1 (PromiseObject p) f r s) = Return (PromiseObject (nextPromise s))"
    and "queue (snd (Promise_then_v1 (PromiseObject p) f r s)) = queue s"
    and "pvalue (PromiseFulfillReactions (heap (snd (Promise_then_v1 (PromiseObject p) f r s)) p))
          = Some (frs @ [\<lparr>capability = next_capability_v1 s, rtype = FULFILL,
                           handler = (if isCallable f then f else Undefined)\<rparr>])"
    and "constructed (heap (snd (Promise_then_v1 (PromiseObject p) f r s)) p)"
    and "pvalue (PromiseState (heap (snd (Promise_then_v1 (PromiseObject p) f r s)) p)) = PENDING"
    and "nextPromise (snd (Promise_then_v1 (PromiseObject p) f r s)) = Suc (nextPromise s)"
    using assms l
    by (simp_all add: Promise_then_v1_def NewPromiseCapability_eq PerformPromiseThen_def Let_def
        next_capability_v1_def constructed_def console_log_def Put_def)
qed

text \<open>
  \<^verbatim>\<open>then\<close> on a settled promise: the new promise is returned and exactly one callback is
  added at the end of the queue, the reaction job that will call the handler for the
  promise's state with the promise's result.
\<close>

lemma Promise_then_settled:
  assumes "pvalue (PromiseState (heap u q)) \<noteq> PENDING" "q < nextPromise u"
    "PromiseResult (heap u q) = Some w"
  shows "fst (Promise_then (PromiseObject q) f r u) = Return (PromiseObject (nextPromise u))"
    and "queue (snd (Promise_then (PromiseObject q) f r u)) = queue u @
          [ReactionJob
            (if pvalue (PromiseState (heap u q)) = FULFILLED
             then \<lparr>capability = next_capability u, rtype = FULFILL,
                   handler = (if isCallable f then f else Undefined)\<rparr>
             else \<lparr>capability = next_capability u, rtype = REJECT,
                   handler = (if isCallable r then r else Undefined)\<rparr>) w]"
  using assms
  by (cases "pvalue (PromiseState (heap u q))";
      simp add: Promise_then_def newPromiseCapability_eq performPromiseThen_def Let_def
        next_capability_def setImmediate_def)+

lemma Promise_then_v1_settled:
  assumes "pvalue (PromiseState (heap u q)) \<noteq> PENDING" "q < nextPromise u"
    "PromiseResult (heap u q) = Some w"
  shows "fst (Promise_then_v1 (PromiseObject q) f r u) = Return (PromiseObject (nextPromise u))"
    and "queue (snd (Promise_then_v1 (PromiseObject q) f r u)) = queue u @
          [ReactionJob
            (if pvalue (PromiseState (heap u q)) = FULFILLED
             then \<lparr>capability = next_capability_v1 u, rtype = FULFILL,
                   handler = (if isCallable f then f else Undefined)\<rparr>
             else \<lparr>capability = next_capability_v1 u, rtype = REJECT,
                   handler = (if isCallable r then r else Undefined)\<rparr>) w]"
  using assms
  by (cases "pvalue (PromiseState (heap u q))";
      simp add: Promise_then_v1_def NewPromiseCapability_eq PerformPromiseThen_def Let_def
        next_capability_v1_def setImmediate_def console_log_def HostPromiseRejectionTracker_def)+

subsection \<open>Two handlers registered one after the other\<close>

lemma then_then_fulfil_order:
  assumes "appends_only H"
    and "constructed (heap s p)" "pvalue (PromiseState (heap s p)) = PENDING" "p < nextPromise s"
    and "pvalue (PromiseFulfillReactions (heap s p)) = Some frs"
    and "isCallable h1" "isCallable h2"
    and "s1 = snd (Promise_then (PromiseObject p) h1 e1 s)"
    and "s2 = snd (Promise_then (PromiseObject p) h2 e2 s1)"
    and "R1 = \<lparr>capability = next_capability s, rtype = FULFILL, handler = h1\<rparr>"
    and "R2 = \<lparr>capability = next_capability s1, rtype = FULFILL, handler = h2\<rparr>"
    and "constructed (heap t p)" "pvalue (PromiseState (heap t p)) = PENDING"
    and "pvalue (PromiseFulfillReactions (heap t p)) = Some (frs @ [R1, R2] @ later)"
    and "s3 = snd (fulfillPromise p v t)"
  shows "queue s1 = queue s" and "queue s2 = queue s"
    and "pvalue (PromiseFulfillReactions (heap s2 p)) = Some (frs @ [R1, R2])"
    and "constructed (heap s2 p)" and "pvalue (PromiseState (heap s2 p)) = PENDING"
    and "queue s3 = queue t @ map (\<lambda>r. ReactionJob r v) frs
            @ [ReactionJob R1 v, ReactionJob R2 v] @ map (\<lambda>r. ReactionJob r v) later"
    and "\<exists>added. fst (runLoop H n s3) @ queue (snd (runLoop H n s3))
            = queue t @ map (\<lambda>r. ReactionJob r v) frs
              @ [ReactionJob R1 v, ReactionJob R2 v] @ map (\<lambda>r. ReactionJob r v) later @ added"
proof -
  note a = Promise_then_pending [OF assms(2-5), of h1 e1, folded assms(8)]
  have l1: "pvalue (PromiseFulfillReactions (heap s1 p)) = Some (frs @ [R1])"
    using a(3) assms(6,10) by simp
  have p1: "p < nextPromise s1" using a(6) assms(4) by simp
  note b = Promise_then_pending [OF a(4) a(5) p1 l1, of h2 e2, folded assms(9)]
  show "queue s1 = queue s" by (rule a(2))
  show "queue s2 = queue s" using b(2) a(2) by simp
  show "pvalue (PromiseFulfillReactions (heap s2 p)) = Some (frs @ [R1, R2])"
    using b(3) assms(7,11) by simp
  show "constructed (heap s2 p)" by (rule b(4))
  show "pvalue (PromiseState (heap s2 p)) = PENDING" by (rule b(5))
  show q3: "queue s3 = queue t @ map (\<lambda>r. ReactionJob r v) frs
            @ [ReactionJob R1 v, ReactionJob R2 v] @ map (\<lambda>r. ReactionJob r v) later"
    by (simp add: assms(15) fulfillPromise_pending [OF assms(12-14)])
  obtain added where "fst (runLoop H n s3) @ queue (snd (runLoop H n s3)) = queue s3 @ added"
    using runLoop_fifo [OF assms(1)] by blast
  then show "\<exists>added. fst (runLoop H n s3) @ queue (snd (runLoop H n s3))
            = queue t @ map (\<lambda>r. ReactionJob r v) frs
              @ [ReactionJob R1 v, ReactionJob R2 v] @ map (\<lambda>r. ReactionJob r v) later @ added"
    unfolding q3 by (intro exI [of _ added]) simp
qed

lemma then_then_fulfil_order_v1:
  assumes "appends_only H"
    and "constructed (heap s p)" "pvalue (PromiseState (heap s p)) = PENDING" "p < nextPromise s"
    and "pvalue (PromiseFulfillReactions (heap s p)) = Some frs"
    and "isCallable h1" "isCallable h2"
    and "s1 = snd (Promise_then_v1 (PromiseObject p) h1 e1 s)"
    and "s2 = snd (Promise_then_v1 (PromiseObject p) h2 e2 s1)"
    and "R1 = \<lparr>capability = next_capability_v1 s, rtype = FULFILL, handler = h1\<rparr>"
    and "R2 = \<lparr>capability = next_capability_v1 s1, rtype = FULFILL, handler = h2\<rparr>"
    and "constructed (heap t p)"
    and "pvalue (PromiseFulfillReactions (heap t p)) = Some (frs @ [R1, R2] @ later)"
    and "s3 = snd (FulfillPromise p v t)"
  shows "queue s1 = queue s" and "queue s2 = queue s"
    and "pvalue (PromiseFulfillReactions (heap s2 p)) = Some (frs @ [R1, R2])"
    and "constructed (heap s2 p)" and "pvalue (PromiseState (heap s2 p)) = PENDING"
    and "queue s3 = queue t @ map (\<lambda>r. ReactionJob r v) frs
            @ [ReactionJob R1 v, ReactionJob R2 v] @ map (\<lambda>r. ReactionJob r v) later"
    and "\<exists>added. fst (runLoop_v1 H n s3) @ queue (snd (runLoop_v1 H n s3))
            = queue t @ map (\<lambda>r. ReactionJob r v) frs
              @ [ReactionJob R1 v, ReactionJob R2 v] @ map (\<lambda>r. ReactionJob r v) later @ added"
proof -
  note a = Promise_then_v1_pending [OF assms(2-5), of h1 e1, folded assms(8)]
  have l1: "pvalue (PromiseFulfillReactions (heap s1 p)) = Some (frs @ [R1])"
    using a(3) assms(6,10) by simp
  have p1: "p < nextPromise s1" using a(6) assms(4) by simp
  note b = Promise_then_v1_pending [OF a(4) a(5) p1 l1, of h2 e2, folded assms(9)]
  show "queue s1 = queue s" by (rule a(2))
  show "queue s2 = queue s" using b(2) a(2) by simp
  show "pvalue (PromiseFulfillReactions (heap s2 p)) = Some (frs @ [R1, R2])"
    using b(3) assms(7,11) by simp
  show "constructed (heap s2 p)" by (rule b(4))
  show "pvalue (PromiseState (heap s2 p)) = PENDING" by (rule b(5))
  show q3: "queue s3 = queue t @ map (\<lambda>r. ReactionJob r v) frs
            @ [ReactionJob R1 v, ReactionJob R2 v] @ map (\<lambda>r. ReactionJob r v) later"
    by (simp add: assms(14) FulfillPromise_constructed [OF assms(12,13)])
  obtain added where "fst (runLoop_v1 H n s3) @ queue (snd (runLoop_v1 H n s3)) = queue s3 @ added"
    using runLoop_v1_fifo [OF assms(1)] by blast
  then show "\<exists>added. fst (runLoop_v1 H n s3) @ queue (snd (runLoop_v1 H n s3))
            = queue t @ map (\<lambda>r. ReactionJob r v) frs
              @ [ReactionJob R1 v, ReactionJob R2 v] @ map (\<lambda>r. ReactionJob r v) later @ added"
    unfolding q3 by (intro exI [of _ added]) simp
qed

text \<open>
  C6.  Let \<open>p\<close> be a pending promise and \<open>h1\<close>, \<open>h2\<close> two functions registered as
  fulfilment handlers by two \<^verbatim>\<open>then\<close> calls, one right after the other (\<open>s\<close>, \<open>s1\<close>,
  \<open>s2\<close> are the states before, between and after them).  In both files:

  \<^item> neither call changes the queue, so neither runs nor schedules anything; the two
    reactions \<open>R1\<close>, \<open>R2\<close> go to the end of the fulfil list of \<open>p\<close>, in that order;
  \<^item> when \<open>p\<close> is fulfilled in any later state \<open>t\<close> in which it is still pending and its
    list still begins with the reactions up to \<open>R1\<close>, \<open>R2\<close>, the job of \<open>R1\<close> is put
    on the queue immediately before the job of \<open>R2\<close>;
  \<^item> the loop takes callbacks from the front of the queue only, and the caller's code can
    only add to the queue (\<open>appends_only\<close>): however long the loop runs, the callbacks it
    has run followed by those still waiting form a list in which the job of \<open>R1\<close> stands
    immediately before the job of \<open>R2\<close>, so the handler \<open>h1\<close> is called before \<open>h2\<close>;
  \<^item> \<^verbatim>\<open>then\<close> on a promise \<open>q\<close> that is already settled returns the new promise and adds
    one callback to the end of the queue, the reaction job for the handler: the handler is
    not called inside \<^verbatim>\<open>then\<close>, which has no access to the caller's code at all.
\<close>

theorem then_order_and_deferral:
  assumes "appends_only H"
    and "constructed (heap s p)" "pvalue (PromiseState (heap s p)) = PENDING" "p < nextPromise s"
    and "pvalue (PromiseFulfillReactions (heap s p)) = Some frs"
    and "isCallable h1" "isCallable h2"
    and "s1 = snd (Promise_then (PromiseObject p) h1 e1 s)"
    and "s2 = snd (Promise_then (PromiseObject p) h2 e2 s1)"
    and "R1 = \<lparr>capability = next_capability s, rtype = FULFILL, handler = h1\<rparr>"
    and "R2 = \<lparr>capability = next_capability s1, rtype = FULFILL, handler = h2\<rparr>"
    and "constructed (heap t p)" "pvalue (PromiseState (heap t p)) = PENDING"
    and "pvalue (PromiseFulfillReactions (heap t p)) = Some (frs @ [R1, R2] @ later)"
    and "s3 = snd (fulfillPromise p v t)"
    and "s1' = snd (Promise_then_v1 (PromiseObject p) h1 e1 s)"
    and "s2' = snd (Promise_then_v1 (PromiseObject p) h2 e2 s1')"
    and "R1' = \<lparr>capability = next_capability_v1 s, rtype = FULFILL, handler = h1\<rparr>"
    and "R2' = \<lparr>capability = next_capability_v1 s1', rtype = FULFILL, handler = h2\<rparr>"
    and "constructed (heap t' p)"
    and "pvalue (PromiseFulfillReactions (heap t' p)) = Some (frs @ [R1', R2'] @ later')"
    and "s3' = snd (FulfillPromise p v t')"
    and "pvalue (PromiseState (heap u q)) \<noteq> PENDING" "q < nextPromise u"
    and "PromiseResult (heap u q) = Some w"
  shows "queue s1 = queue s \<and> queue s2 = queue s
    \<and> pvalue (PromiseFulfillReactions (heap s2 p)) = Some (frs @ [R1, R2])
    \<and> queue s3 = queue t @ map (\<lambda>r. ReactionJob r v) frs
          @ [ReactionJob R1 v, ReactionJob R2 v] @ map (\<lambda>r. ReactionJob r v) later
    \<and> (\<exists>added. fst (runLoop H n s3) @ queue (snd (runLoop H n s3))
          = queue t @ map (\<lambda>r. ReactionJob r v) frs
            @ [ReactionJob R1 v, ReactionJob R2 v] @ map (\<lambda>r. ReactionJob r v) later @ added)
    \<and> queue s1' = queue s \<and> queue s2' = queue s
    \<and> pvalue (PromiseFulfillReactions (heap s2' p)) = Some (frs @ [R1', R2'])
    \<and> queue s3' = queue t' @ map (\<lambda>r. ReactionJob r v) frs
          @ [ReactionJob R1' v, ReactionJob R2' v] @ map (\<lambda>r. ReactionJob r v) later'
    \<and> (\<exists>added. fst (runLoop_v1 H n s3') @ queue (snd (runLoop_v1 H n s3'))
          = queue t' @ map (\<lambda>r. ReactionJob r v) frs
            @ [ReactionJob R1' v, ReactionJob R2' v] @ map (\<lambda>r. ReactionJob r v) later' @ added)
    \<and> fst (Promise_then (PromiseObject q) h1 e1 u) = Return (PromiseObject (nextPromise u))
    \<and> queue (snd (Promise_then (PromiseObject q) h1 e1 u)) = queue u @
          [ReactionJob
            (if pvalue (PromiseState (heap u q)) = FULFILLED
             then \<lparr>capability = next_capability u, rtype = FULFILL, handler = h1\<rparr>
             else \<lparr>capability = next_capability u, rtype = REJECT,
                   handler = (if isCallable e1 then e1 else Undefined)\<rparr>) w]
    \<and> fst (Promise_then_v1 (PromiseObject q) h1 e1 u) = Return (PromiseObject (nextPromise u))
    \<and> queue (snd (Promise_then_v1 (PromiseObject q) h1 e1 u)) = queue u @
          [ReactionJob
            (if pvalue (PromiseState (heap u q)) = FULFILLED
             then \<lparr>capability = next_capability_v1 u, rtype = FULFILL, handler = h1\<rparr>
             else \<lparr>capability = next_capability_v1 u, rtype = REJECT,
                   handler = (if isCallable e1 then e1 else Undefined)\<rparr>) w]"
proof -
  note b = then_then_fulfil_order [OF assms(1-15)]
  note a = then_then_fulfil_order_v1 [OF assms(1-7) assms(16-22)]
  note c = Promise_then_settled [OF assms(23-25), of h1 e1]
  note d = Promise_then_v1_settled [OF assms(23-25), of h1 e1]
  show ?thesis
    using b(1,2,3,6,7) a(1,2,3,6,7) c d assms(6) by simp
qed

lemma appends_only_sample_host: "appends_only sample_host"
  by (simp add: appends_only_def sample_host_def sample_call_def queue_extends_def
      split: val.splits)

theorem then_order_and_deferral_witness:
  "appends_only sample_host
   \<and> constructed (heap deferred_st 0) \<and> pvalue (PromiseState (heap deferred_st 0)) = PENDING
   \<and> queue after_first_then = [] \<and> queue after_two_thens = []
   \<and> pvalue (PromiseFulfillReactions (heap after_two_thens 0))
       = Some [first_reaction, second_reaction]
   \<and> queue (snd (fulfillPromise 0 (Number 5) after_two_thens))
       = [ReactionJob first_reaction (Number 5), ReactionJob second_reaction (Number 5)]
   \<and> (\<exists>added. fst (runLoop sample_host (Suc (Suc 0)) (snd (fulfillPromise 0 (Number 5) after_two_thens)))
          @ queue (snd (runLoop sample_host (Suc (Suc 0)) (snd (fulfillPromise 0 (Number 5) after_two_thens))))
        = [ReactionJob first_reaction (Number 5), ReactionJob second_reaction (Number 5)] @ added)
   \<and> queue after_first_then_v1 = [] \<and> queue after_two_thens_v1 = []
   \<and> pvalue (PromiseFulfillReactions (heap after_two_thens_v1 0))
       = Some [first_reaction_v1, second_reaction_v1]
   \<and> queue (snd (FulfillPromise 0 (Number 5) after_two_thens_v1))
       = [ReactionJob first_reaction_v1 (Number 5), ReactionJob second_reaction_v1 (Number 5)]
   \<and> (\<exists>added. fst (runLoop_v1 sample_host (Suc (Suc 0)) (snd (FulfillPromise 0 (Number 5) after_two_thens_v1)))
          @ queue (snd (runLoop_v1 sample_host (Suc (Suc 0)) (snd (FulfillPromise 0 (Number 5) after_two_thens_v1))))
        = [ReactionJob first_reaction_v1 (Number 5), ReactionJob second_reaction_v1 (Number 5)] @ added)
   \<and> pvalue (PromiseState (heap (snd (fulfillPromise 0 (Number 5) after_two_thens)) 0)) = FULFILLED
   \<and> queue (snd (Promise_then (PromiseObject 0) (Function (UserFn 0)) Undefined
         (snd (fulfillPromise 0 (Number 5) after_two_thens))))
       = [ReactionJob first_reaction (Number 5), ReactionJob second_reaction (Number 5),
          ReactionJob \<lparr>capability = next_capability (snd (fulfillPromise 0 (Number 5) after_two_thens)),
                       rtype = FULFILL, handler = Function (UserFn 0)\<rparr> (Number 5)]
   \<and> queue (snd (Promise_then_v1 (PromiseObject 0) (Function (UserFn 0)) Undefined
         (snd (fulfillPromise 0 (Number 5) after_two_thens))))
       = [ReactionJob first_reaction (Number 5), ReactionJob second_reaction (Number 5),
          ReactionJob \<lparr>capability = next_capability_v1 (snd (fulfillPromise 0 (Number 5) after_two_thens)),
                       rtype = FULFILL, handler = Function (UserFn 0)\<rparr> (Number 5)]"
proof -
  let ?u = "snd (fulfillPromise 0 (Number 5) after_two_thens)"
  have g1: "appends_only sample_host"
    by (simp add: appends_only_def sample_host_def sample_call_def queue_extends_def
        split: val.splits)
  have g2: "constructed (heap deferred_st 0)"
    by (simp add: deferred_st_facts constructed_fresh_object)
  have g3: "pvalue (PromiseState (heap deferred_st 0)) = PENDING"
    by (simp add: deferred_st_facts fresh_object_def)
  have g4: "0 < nextPromise deferred_st"
    by (simp add: deferred_st_facts)
  have g5: "pvalue (PromiseFulfillReactions (heap deferred_st 0)) = Some []"
    by (simp add: deferred_st_facts fresh_object_def)
  have g6: "isCallable (Function (UserFn 0))" and g7: "isCallable (Function (UserFn 1))"
    by simp_all
  note a = Promise_then_pending [OF g2 g3 g4 g5, of "Function (UserFn 0)" Undefined,
      folded after_first_then_def]
  have a3: "pvalue (PromiseFulfillReactions (heap after_first_then 0)) = Some ([] @ [first_reaction])"
    using a(3) by (simp add: first_reaction_def)
  have a6: "0 < nextPromise after_first_then" using a(6) by simp
  note b = Promise_then_pending [OF a(4) a(5) a6 a3, of "Function (UserFn 1)" Undefined,
      folded after_two_thens_def]
  have g14: "pvalue (PromiseFulfillReactions (heap after_two_thens 0))
               = Some ([] @ [first_reaction, second_reaction] @ [])"
    using b(3) by (simp add: second_reaction_def)
  note a' = Promise_then_v1_pending [OF g2 g3 g4 g5, of "Function (UserFn 0)" Undefined,
      folded after_first_then_v1_def]
  have a3': "pvalue (PromiseFulfillReactions (heap after_first_then_v1 0))
               = Some ([] @ [first_reaction_v1])"
    using a'(3) by (simp add: first_reaction_v1_def)
  have a6': "0 < nextPromise after_first_then_v1" using a'(6) by simp
  note b' = Promise_then_v1_pending [OF a'(4) a'(5) a6' a3', of "Function (UserFn 1)" Undefined,
      folded after_two_thens_v1_def]
  have g21: "pvalue (PromiseFulfillReactions (heap after_two_thens_v1 0))
               = Some ([] @ [first_reaction_v1, second_reaction_v1] @ [])"
    using b'(3) by (simp add: second_reaction_v1_def)
  have g23: "pvalue (PromiseState (heap ?u 0)) \<noteq> PENDING"
    and g25: "PromiseResult (heap ?u 0) = Some (Number 5)"
    by (simp_all add: settle_once [OF b(4) b(5)])
  have g24: "0 < nextPromise ?u"
    using b(6) by (simp add: fulfillPromise_pending [OF b(4) b(5) g14])
  have qu: "queue after_two_thens = []" "queue after_two_thens_v1 = []"
    "queue after_first_then = []" "queue after_first_then_v1 = []"
    using a(2) b(2) a'(2) b'(2) by (simp_all add: deferred_st_facts)
  have st: "pvalue (PromiseState (heap ?u 0)) = FULFILLED"
    by (simp add: settle_once [OF b(4) b(5)])
  show ?thesis
    using g1 g2 g3 qu st
      then_order_and_deferral [where v = "Number 5" and n = "Suc (Suc 0)",
        OF g1 g2 g3 g4 g5 g6 g7 after_first_then_def after_two_thens_def
        first_reaction_def second_reaction_def b(4) b(5) g14 refl
        after_first_then_v1_def after_two_thens_v1_def first_reaction_v1_def
        second_reaction_v1_def b'(4) g21 refl g23 g24 g25]
    by (auto simp del: runLoop.simps runLoop_v1.simps)
qed

section \<open>Usage errors of the constructor\<close>

text \<open>
  What both constructors do before they make anything.  Invoked without \<^verbatim>\<open>new\<close> they
  throw a TypeError and leave the state as it was.  Invoked with \<^verbatim>\<open>new\<close> and an executor
  that is not callable they throw in every case, so no promise is returned; what they throw
  is a TypeError when the conversion of the executor to a string, which the message needs,
  returns a string.
\<close>

lemma constructor_checks:
  "Promise H False executor s = (Throw (TypeError ''undefined is not a promise''), s)"
  "Promise_v1 H False executor s = (Throw (TypeError ''undefined is not a promise''), s)"
  "\<not> isCallable executor \<Longrightarrow> ToString H executor s = (Inr text, s1) \<Longrightarrow>
     Promise H True executor s
       = (Throw (TypeError (''Promise resolver '' @ text @ '' is not a function'')), s1)
     \<and> Promise_v1 H True executor s
       = (Throw (TypeError (''Promise resolver '' @ text @ '' is not a function'')), s1)"
  "\<not> isCallable executor \<Longrightarrow> ToString H executor s = (Inl e, s1) \<Longrightarrow>
     Promise H True executor s = (Throw e, s1) \<and> Promise_v1 H True executor s = (Throw e, s1)"
  "\<not> isCallable executor \<Longrightarrow>
     (\<exists>e s1. Promise H True executor s = (Throw e, s1))
     \<and> (\<exists>e s1. Promise_v1 H True executor s = (Throw e, s1))"
  by (auto simp: Promise_def Promise_v1_def split: prod.splits sum.splits)

text \<open>
  The conversion of a primitive to a string neither throws nor changes the state, so for
  an executor that is \<^verbatim>\<open>undefined\<close>, \<^verbatim>\<open>null\<close>, a boolean, a number or a string the error
  is a TypeError and the state is as it was.
\<close>

lemma constructor_primitive_executor:
  assumes "typeof executor \<noteq> T_object" "typeof executor \<noteq> T_function"
  shows "\<exists>text. Promise H True executor s
            = (Throw (TypeError (''Promise resolver '' @ text @ '' is not a function'')), s)
          \<and> Promise_v1 H True executor s
            = (Throw (TypeError (''Promise resolver '' @ text @ '' is not a function'')), s)"
  using assms by (cases executor) (simp_all add: Promise_def Promise_v1_def)

text \<open>
  C9.  The message of the second TypeError is the template literal
  \<^verbatim>\<open>`Promise resolver ${executor} is not a function`\<close>, which converts the executor to a
  string before the error object exists, and for an object that conversion runs the
  caller's \<^verbatim>\<open>toString\<close>.  Object 3 of the sample caller is not callable and its
  \<^verbatim>\<open>toString\<close> throws the string \<^verbatim>\<open>boom\<close>: in both files \<^verbatim>\<open>new Promise(object3)\<close> throws
  \<^verbatim>\<open>boom\<close>, which is not a TypeError.  Object 4 is not callable and its \<^verbatim>\<open>toString\<close>
  writes to the console: \<^verbatim>\<open>new Promise(object4)\<close> throws the TypeError, after the caller's
  code has run.  In neither case is a promise made.
\<close>

theorem constructor_message_runs_toString:
  "\<not> isCallable (Object 3)
   \<and> Promise sample_host True (Object 3) empty_st = (Throw (Str ''boom''), empty_st)
   \<and> Promise_v1 sample_host True (Object 3) empty_st = (Throw (Str ''boom''), empty_st)
   \<and> \<not> isCallable (Object 4)
   \<and> Promise sample_host True (Object 4) empty_st
       = (Throw (TypeError ''Promise resolver four is not a function''),
          empty_st\<lparr>console := [''toString ran'']\<rparr>)
   \<and> Promise_v1 sample_host True (Object 4) empty_st
       = (Throw (TypeError ''Promise resolver four is not a function''),
          empty_st\<lparr>console := [''toString ran'']\<rparr>)
   \<and> nextPromise (empty_st\<lparr>console := [''toString ran'']\<rparr>) = nextPromise empty_st"
  by (simp add: Promise_def Promise_v1_def sample_host_def sample_toString_def console_log_def
      empty_st_def)

end
